theory Spec2Isabelle
  imports Main
begin

section \<open>Python values, exceptions and the outside world\<close>

text \<open>
  The tool server hands the client whatever JSON the caller sent, so the client's
  methods are modelled on dynamically typed values, as Python runs them. JSON numbers
  are restricted to integers. A dict is an association list in insertion order.
\<close>

datatype pyval =
    PNone
  | PBool bool
  | PInt int
  | PStr string
  | PList "pyval list"
  | PDict "(string \<times> pyval) list"

text \<open>
  The exceptions the code raises or lets through. \<open>RequestException\<close> stands for
  whatever \<^verbatim>\<open>requests.request\<close> raises on a transport failure.
\<close>

datatype exn =
    ValueError string
  | KeyError string
  | TypeError string
  | JSONDecodeError string
  | RequestException string

record request =
  req_method :: string
  req_url :: string
  req_headers :: "(string \<times> string) list"
  req_json :: "pyval option"
  req_timeout :: nat

text \<open>
  A response object: \<open>json_body\<close> is what calling \<^verbatim>\<open>response.json()\<close> does,
  a parsed value or an exception.
\<close>

record response =
  status_code :: int
  resp_text :: string
  json_body :: "exn + pyval"

text \<open>
  Everything outside the process: the environment variables, the remote end (which
  answers the latest request of a history of requests, or fails), the requests issued
  so far, and the random source, an infinite sequence of draws.
\<close>

record world =
  environ :: "string \<Rightarrow> string option"
  remote :: "request list \<Rightarrow> exn + response"
  sent :: "request list"
  rand :: "nat \<Rightarrow> nat"

subsection \<open>Built-in operations of Python used by the code\<close>

text \<open>The constants of the \<^verbatim>\<open>string\<close> module.\<close>

definition ascii_lowercase :: string where
  "ascii_lowercase = ''abcdefghijklmnopqrstuvwxyz''"

definition ascii_uppercase :: string where
  "ascii_uppercase = ''ABCDEFGHIJKLMNOPQRSTUVWXYZ''"

definition ascii_letters :: string where
  "ascii_letters = ascii_lowercase @ ascii_uppercase"

definition digits :: string where
  "digits = ''0123456789''"

text \<open>\<^verbatim>\<open>str\<close> of an integer: decimal digits, with a minus sign when negative.\<close>

definition digit_char :: "nat \<Rightarrow> char" where
  "digit_char d = digits ! d"

fun str_nat :: "nat \<Rightarrow> string" where
  "str_nat n = (if n < 10 then [digit_char n] else str_nat (n div 10) @ [digit_char (n mod 10)])"

declare str_nat.simps [simp del]

definition str_int :: "int \<Rightarrow> string" where
  "str_int i = (if i < 0 then CHR ''-'' # str_nat (nat (- i)) else str_nat (nat i))"

definition rstrip :: "char \<Rightarrow> string \<Rightarrow> string" where
  "rstrip c s = rev (dropWhile (\<lambda>x. x = c) (rev s))"

definition lstrip :: "char \<Rightarrow> string \<Rightarrow> string" where
  "lstrip c s = dropWhile (\<lambda>x. x = c) s"

text \<open>\<^verbatim>\<open>str.lower\<close> on the ASCII range, which decides the comparison with the
  three truthy spellings of the debug flag.\<close>

definition lower_char :: "char \<Rightarrow> char" where
  "lower_char c =
     (case map_of (zip ascii_uppercase ascii_lowercase) c of None \<Rightarrow> c | Some l \<Rightarrow> l)"

definition lower :: "string \<Rightarrow> string" where
  "lower s = map lower_char s"

fun join :: "string \<Rightarrow> string list \<Rightarrow> string" where
  "join sep [] = []"
| "join sep [x] = x"
| "join sep (x # y # ys) = x @ sep @ join sep (y # ys)"

text \<open>\<^verbatim>\<open>repr\<close> of a string: single quotes unless the string holds a single quote
  and no double quote; backslash, the quote and control characters escaped.\<close>

definition hex_digit :: "nat \<Rightarrow> char" where
  "hex_digit d = ''0123456789abcdef'' ! d"

definition printable :: "char \<Rightarrow> bool" where
  "printable c =
     (let n = (of_char c :: nat) in
      (32 \<le> n \<and> n < 127) \<or> (161 \<le> n \<and> n \<noteq> 173))"

definition repr_char :: "char \<Rightarrow> char \<Rightarrow> string" where
  "repr_char q c =
     (if c = q \<or> c = CHR 0x5C then [CHR 0x5C, c]
      else if c = CHR 0x09 then [CHR 0x5C, CHR ''t'']
      else if c = CHR 0x0A then [CHR 0x5C, CHR ''n'']
      else if c = CHR 0x0D then [CHR 0x5C, CHR ''r'']
      else if printable c then [c]
      else [CHR 0x5C, CHR ''x'', hex_digit ((of_char c :: nat) div 16),
            hex_digit ((of_char c :: nat) mod 16)])"

definition repr_str :: "string \<Rightarrow> string" where
  "repr_str s =
     (let q = (if CHR 0x27 \<in> set s \<and> CHR 0x22 \<notin> set s then CHR 0x22 else CHR 0x27)
      in [q] @ concat (map (repr_char q) s) @ [q])"

fun py_repr :: "pyval \<Rightarrow> string" where
  "py_repr PNone = ''None''"
| "py_repr (PBool b) = (if b then ''True'' else ''False'')"
| "py_repr (PInt i) = str_int i"
| "py_repr (PStr s) = repr_str s"
| "py_repr (PList xs) = ''['' @ join '', '' (map py_repr xs) @ '']''"
| "py_repr (PDict kvs) =
     ''{'' @ join '', '' (map (\<lambda>kv. repr_str (fst kv) @ '': '' @ py_repr (snd kv)) kvs) @ ''}''"

text \<open>\<^verbatim>\<open>str(v)\<close>, which an f-string applies to each interpolated value.\<close>

definition py_str :: "pyval \<Rightarrow> string" where
  "py_str v = (case v of PStr s \<Rightarrow> s | _ \<Rightarrow> py_repr v)"

text \<open>Truth value testing, as \<^verbatim>\<open>if x\<close> and \<^verbatim>\<open>not x\<close> do it.\<close>

fun truthy :: "pyval \<Rightarrow> bool" where
  "truthy PNone = False"
| "truthy (PBool b) = b"
| "truthy (PInt i) = (i \<noteq> 0)"
| "truthy (PStr s) = (s \<noteq> [])"
| "truthy (PList xs) = (xs \<noteq> [])"
| "truthy (PDict kvs) = (kvs \<noteq> [])"

fun type_name :: "pyval \<Rightarrow> string" where
  "type_name PNone = ''NoneType''"
| "type_name (PBool b) = ''bool''"
| "type_name (PInt i) = ''int''"
| "type_name (PStr s) = ''str''"
| "type_name (PList xs) = ''list''"
| "type_name (PDict kvs) = ''dict''"

text \<open>
  \<^verbatim>\<open>min(count, 100)\<close> keeps its first argument unless \<^verbatim>\<open>100 < count\<close>; the
  comparison is defined between integers (a bool counts as 0 or 1) and raises
  \<^verbatim>\<open>TypeError\<close> otherwise.
\<close>

fun py_min :: "pyval \<Rightarrow> int \<Rightarrow> exn + pyval" where
  "py_min (PInt n) m = Inr (if m < n then PInt m else PInt n)"
| "py_min (PBool b) m = Inr (if m < (if b then 1 else 0) then PInt m else PBool b)"
| "py_min v m =
     Inl (TypeError ([CHR 0x27] @ ''<'' @ [CHR 0x27] @ '' not supported between instances of ''
          @ [CHR 0x27] @ ''int'' @ [CHR 0x27] @ '' and '' @ [CHR 0x27] @ type_name v @ [CHR 0x27]))"

text \<open>Iteration, as a \<^verbatim>\<open>for\<close> loop or a comprehension starts it: a list gives its
  elements, a string its characters, a dict its keys, anything else raises.\<close>

fun py_iter :: "pyval \<Rightarrow> exn + pyval list" where
  "py_iter (PList xs) = Inr xs"
| "py_iter (PStr s) = Inr (map (\<lambda>c. PStr [c]) s)"
| "py_iter (PDict kvs) = Inr (map (\<lambda>kv. PStr (fst kv)) kvs)"
| "py_iter v =
     Inl (TypeError ([CHR 0x27] @ type_name v @ [CHR 0x27] @ '' object is not iterable''))"

text \<open>The \<^verbatim>\<open>random\<close> module: each call consumes one draw of the source.\<close>

definition random_next :: "world \<Rightarrow> nat \<times> world" where
  "random_next w = (rand w 0, w\<lparr>rand := (\<lambda>n. rand w (Suc n))\<rparr>)"

text \<open>\<^verbatim>\<open>random.choice\<close>; the code applies it to non-empty literals only.\<close>

definition random_choice :: "'a list \<Rightarrow> world \<Rightarrow> 'a \<times> world" where
  "random_choice xs w = (let (r, w1) = random_next w in (xs ! (r mod length xs), w1))"

fun random_choices :: "'a list \<Rightarrow> nat \<Rightarrow> world \<Rightarrow> 'a list \<times> world" where
  "random_choices population 0 w = ([], w)"
| "random_choices population (Suc k) w =
     (let (x, w1) = random_choice population w;
          (xs, w2) = random_choices population k w1
      in (x # xs, w2))"

definition random_randint :: "int \<Rightarrow> int \<Rightarrow> world \<Rightarrow> int \<times> world" where
  "random_randint a b w = (let (r, w1) = random_next w in (a + int (r mod nat (b - a + 1)), w1))"

section \<open>The SCIM client\<close>

record client =
  base_url :: string
  token :: string
  headers :: "(string \<times> string) list"
  debug :: bool

text \<open>\<^verbatim>\<open>a or b\<close> on optional strings: \<open>a\<close> when it is a non-empty string.\<close>

definition or_else :: "string option \<Rightarrow> string option \<Rightarrow> string option" where
  "or_else a b = (case a of None \<Rightarrow> b | Some s \<Rightarrow> if s \<noteq> [] then Some s else b)"

definition base_url_missing :: string where
  "base_url_missing =
     ''SCIM base URL must be provided via parameter or SCIM_BASE_URL environment variable''"

definition token_missing :: string where
  "token_missing =
     ''SCIM token must be provided via parameter or SCIM_TOKEN environment variable''"

definition SCIMClient_init :: "string option \<Rightarrow> string option \<Rightarrow> world \<Rightarrow> (exn + client) \<times> world" where
  "SCIMClient_init base_url_arg token_arg w =
     (case or_else base_url_arg (environ w ''SCIM_BASE_URL'') of
        None \<Rightarrow> (Inl (ValueError base_url_missing), w)
      | Some b \<Rightarrow>
          if b = [] then (Inl (ValueError base_url_missing), w)
          else
           (case or_else token_arg (environ w ''SCIM_TOKEN'') of
              None \<Rightarrow> (Inl (ValueError token_missing), w)
            | Some t \<Rightarrow>
                if t = [] then (Inl (ValueError token_missing), w)
                else
                  (Inr \<lparr> base_url = rstrip CHR ''/'' b,
                         token = t,
                         headers = [(''Authorization'', ''Bearer '' @ t),
                                    (''Content-Type'', ''application/scim+json''),
                                    (''Accept'', ''application/scim+json'')],
                         debug = (lower (case environ w ''DEBUG'' of None \<Rightarrow> ''false'' | Some v \<Rightarrow> v)
                                    \<in> set [''true'', ''1'', ''yes'']) \<rparr>, w)))"

text \<open>
  Debug logging. The text written to the logger is not modelled; what can reach the
  caller is: with debug on, \<^verbatim>\<open>response.json()\<close> is called and only a
  \<^verbatim>\<open>JSONDecodeError\<close> is caught.
\<close>

definition log_request_response :: "client \<Rightarrow> response \<Rightarrow> exn + unit" where
  "log_request_response c resp =
     (if \<not> debug c then Inr ()
      else (case json_body resp of
              Inr j \<Rightarrow> Inr ()
            | Inl (JSONDecodeError m) \<Rightarrow> Inr ()
            | Inl e \<Rightarrow> Inl e))"

definition make_request :: "client \<Rightarrow> string \<Rightarrow> string \<Rightarrow> pyval option \<Rightarrow> world \<Rightarrow> (exn + response) \<times> world" where
  "make_request c method endpoint payload w =
     (let url = base_url c @ ''/'' @ lstrip CHR ''/'' endpoint;
          req = \<lparr> req_method = method, req_url = url, req_headers = headers c,
                  req_json = payload, req_timeout = 30 \<rparr>;
          w1 = w\<lparr>sent := sent w @ [req]\<rparr>
      in case remote w (sent w1) of
           Inl e \<Rightarrow> (Inl e, w1)
         | Inr resp \<Rightarrow>
             (case log_request_response c resp of
                Inl e \<Rightarrow> (Inl e, w1)
              | Inr u \<Rightarrow> (Inr resp, w1)))"

definition get_users :: "client \<Rightarrow> pyval \<Rightarrow> pyval \<Rightarrow> pyval \<Rightarrow> world \<Rightarrow> (exn + response) \<times> world" where
  "get_users c start_index count filter_expr w =
     (case py_min count 100 of
        Inl e \<Rightarrow> (Inl e, w)
      | Inr cnt \<Rightarrow>
          (let params0 = [(''startIndex'', start_index), (''count'', cnt)];
               params = (if truthy filter_expr then params0 @ [(''filter'', filter_expr)] else params0)
           in let endpoint =
                    (if params \<noteq> []
                     then ''Users?'' @ join ''&'' (map (\<lambda>kv. fst kv @ ''='' @ py_str (snd kv)) params)
                     else ''Users'')
              in make_request c ''GET'' endpoint None w))"

definition get_user :: "client \<Rightarrow> pyval \<Rightarrow> world \<Rightarrow> (exn + response) \<times> world" where
  "get_user c user_id w = make_request c ''GET'' (''Users/'' @ py_str user_id) None w"

definition generate_external_id :: "world \<Rightarrow> string \<times> world" where
  "generate_external_id w = random_choices (ascii_letters @ digits) 12 w"

definition adjectives :: "string list" where
  "adjectives =
     [''Quick'', ''Happy'', ''Bright'', ''Smart'', ''Cool'', ''Fast'', ''Safe'', ''Good'',
      ''Blue'', ''Green'', ''Red'', ''Gold'', ''Silver'', ''Purple'', ''Orange'', ''Pink'',
      ''Bold'', ''Calm'', ''Warm'', ''Fresh'', ''Clean'', ''Sweet'', ''Sharp'', ''Smooth'',
      ''Strong'', ''Light'', ''Dark'', ''Soft'', ''Hard'', ''Tall'', ''Short'', ''Wide'',
      ''Deep'', ''High'', ''Low'', ''Rich'', ''Pure'', ''Fine'', ''Rare'', ''New'']"

definition nouns :: "string list" where
  "nouns =
     [''Cat'', ''Dog'', ''Bird'', ''Fish'', ''Star'', ''Moon'', ''Sun'', ''Tree'',
      ''Lion'', ''Tiger'', ''Bear'', ''Wolf'', ''Fox'', ''Hawk'', ''Eagle'', ''Dove'',
      ''Rose'', ''Lily'', ''Oak'', ''Pine'', ''River'', ''Lake'', ''Hill'', ''Rock'',
      ''Fire'', ''Wind'', ''Rain'', ''Snow'', ''Cloud'', ''Storm'', ''Wave'', ''Ocean'',
      ''House'', ''Tower'', ''Bridge'', ''Castle'', ''Garden'', ''Forest'', ''Valley'', ''Mountain'']"

definition generate_easy_password :: "world \<Rightarrow> string \<times> world" where
  "generate_easy_password w =
     (let (adjective, w1) = random_choice adjectives w;
          (noun, w2) = random_choice nouns w1;
          (number, w3) = random_randint 100000 999999 w2
      in (adjective @ noun @ str_int number @ ''!'', w3))"

definition create_user :: "client \<Rightarrow> pyval \<Rightarrow> pyval \<Rightarrow> pyval \<Rightarrow> pyval \<Rightarrow> pyval \<Rightarrow> world \<Rightarrow> (exn + response) \<times> world" where
  "create_user c email firstName lastName externalId password w =
     (let (externalId1, w1) =
            (if \<not> truthy externalId
             then (let (s, w') = generate_external_id w in (PStr s, w'))
             else (externalId, w));
          (password1, w2) =
            (if \<not> truthy password
             then (let (s, w') = generate_easy_password w1 in (PStr s, w'))
             else (password, w1));
          user_data = PDict
            [(''schemas'', PList [PStr ''urn:ietf:params:scim:schemas:core:2.0:User'']),
             (''userName'', email),
             (''externalId'', externalId1),
             (''name'', PDict [(''givenName'', firstName), (''familyName'', lastName)]),
             (''emails'', PList [PDict [(''value'', email), (''primary'', PBool True)]]),
             (''password'', password1),
             (''active'', PBool True)]
      in make_request c ''POST'' ''Users'' (Some user_data) w2)"

definition update_user :: "client \<Rightarrow> pyval \<Rightarrow> pyval \<Rightarrow> world \<Rightarrow> (exn + response) \<times> world" where
  "update_user c user_id user_data w =
     make_request c ''PUT'' (''Users/'' @ py_str user_id) (Some user_data) w"

definition delete_user :: "client \<Rightarrow> pyval \<Rightarrow> world \<Rightarrow> (exn + response) \<times> world" where
  "delete_user c user_id w = make_request c ''DELETE'' (''Users/'' @ py_str user_id) None w"

definition get_groups :: "client \<Rightarrow> pyval \<Rightarrow> pyval \<Rightarrow> pyval \<Rightarrow> world \<Rightarrow> (exn + response) \<times> world" where
  "get_groups c start_index count filter_expr w =
     (case py_min count 100 of
        Inl e \<Rightarrow> (Inl e, w)
      | Inr cnt \<Rightarrow>
          (let params0 = [(''startIndex'', start_index), (''count'', cnt)];
               params = (if truthy filter_expr then params0 @ [(''filter'', filter_expr)] else params0)
           in let endpoint =
                    (if params \<noteq> []
                     then ''Groups?'' @ join ''&'' (map (\<lambda>kv. fst kv @ ''='' @ py_str (snd kv)) params)
                     else ''Groups'')
              in make_request c ''GET'' endpoint None w))"

definition get_group :: "client \<Rightarrow> pyval \<Rightarrow> world \<Rightarrow> (exn + response) \<times> world" where
  "get_group c group_id w = make_request c ''GET'' (''Groups/'' @ py_str group_id) None w"

definition create_group :: "client \<Rightarrow> pyval \<Rightarrow> pyval \<Rightarrow> world \<Rightarrow> (exn + response) \<times> world" where
  "create_group c displayName externalId w =
     (let (externalId1, w1) =
            (if \<not> truthy externalId
             then (let (n, w') = random_randint 10000000 99999999 w in (PStr (str_int n), w'))
             else (externalId, w));
          group_data = PDict
            [(''schemas'', PList [PStr ''urn:ietf:params:scim:schemas:core:2.0:Group'']),
             (''displayName'', displayName),
             (''externalId'', externalId1)]
      in make_request c ''POST'' ''Groups'' (Some group_data) w1)"

definition update_group :: "client \<Rightarrow> pyval \<Rightarrow> pyval \<Rightarrow> world \<Rightarrow> (exn + response) \<times> world" where
  "update_group c group_id group_data w =
     make_request c ''PUT'' (''Groups/'' @ py_str group_id) (Some group_data) w"

definition delete_group :: "client \<Rightarrow> pyval \<Rightarrow> world \<Rightarrow> (exn + response) \<times> world" where
  "delete_group c group_id w = make_request c ''DELETE'' (''Groups/'' @ py_str group_id) None w"

definition patch_group :: "client \<Rightarrow> pyval \<Rightarrow> pyval list \<Rightarrow> world \<Rightarrow> (exn + response) \<times> world" where
  "patch_group c group_id patch_operations w =
     (let patch_data = PDict
            [(''schemas'', PList [PStr ''urn:ietf:params:scim:api:messages:2.0:PatchOp'']),
             (''Operations'', PList patch_operations)]
      in make_request c ''PATCH'' (''Groups/'' @ py_str group_id) (Some patch_data) w)"

definition add_members_to_group :: "client \<Rightarrow> pyval \<Rightarrow> pyval \<Rightarrow> world \<Rightarrow> (exn + response) \<times> world" where
  "add_members_to_group c group_id user_ids w =
     (case py_iter user_ids of
        Inl e \<Rightarrow> (Inl e, w)
      | Inr ids \<Rightarrow>
          (let members = map (\<lambda>user_id. PDict [(''value'', user_id)]) ids;
               operations = [PDict [(''op'', PStr ''add''), (''path'', PStr ''members''),
                                    (''value'', PList members)]]
           in patch_group c group_id operations w))"

text \<open>The loop of \<^verbatim>\<open>remove_members_from_group\<close>: one append per user id.\<close>

fun remove_loop :: "pyval list \<Rightarrow> pyval list \<Rightarrow> pyval list" where
  "remove_loop operations [] = operations"
| "remove_loop operations (user_id # rest) =
     remove_loop
       (operations @
          [PDict [(''op'', PStr ''remove''),
                  (''path'', PStr (''members[value eq '' @ [CHR 0x22] @ py_str user_id @ [CHR 0x22] @ '']''))]])
       rest"

definition remove_members_from_group :: "client \<Rightarrow> pyval \<Rightarrow> pyval \<Rightarrow> world \<Rightarrow> (exn + response) \<times> world" where
  "remove_members_from_group c group_id user_ids w =
     (case py_iter user_ids of
        Inl e \<Rightarrow> (Inl e, w)
      | Inr ids \<Rightarrow> patch_group c group_id (remove_loop [] ids) w)"

section \<open>The tool server\<close>

record server =
  client_of :: "client option"

text \<open>\<^verbatim>\<open>arguments.get(k, default)\<close> and \<^verbatim>\<open>arguments[k]\<close>.\<close>

definition dict_get :: "(string \<times> pyval) list \<Rightarrow> string \<Rightarrow> pyval \<Rightarrow> pyval" where
  "dict_get d k dflt = (case map_of d k of None \<Rightarrow> dflt | Some v \<Rightarrow> v)"

definition dict_item :: "(string \<times> pyval) list \<Rightarrow> string \<Rightarrow> exn + pyval" where
  "dict_item d k = (case map_of d k of None \<Rightarrow> Inl (KeyError k) | Some v \<Rightarrow> Inr v)"

text \<open>\<^verbatim>\<open>str(e)\<close>: the message, and for a \<^verbatim>\<open>KeyError\<close> the repr of the key.\<close>

fun exn_str :: "exn \<Rightarrow> string" where
  "exn_str (ValueError m) = m"
| "exn_str (KeyError k) = repr_str k"
| "exn_str (TypeError m) = m"
| "exn_str (JSONDecodeError m) = m"
| "exn_str (RequestException m) = m"

text \<open>\<^verbatim>\<open>try: x = body  except: x = handler\<close>, catching everything.\<close>

definition try_except :: "exn + 'a \<Rightarrow> 'a \<Rightarrow> exn + 'a" where
  "try_except body handler = (case body of Inl e \<Rightarrow> Inr handler | Inr v \<Rightarrow> Inr v)"

definition process_response :: "response \<Rightarrow> exn + pyval" where
  "process_response resp =
     (let result = [(''status_code'', PInt (status_code resp)),
                    (''success'', PBool (status_code resp < 400))]
      in case try_except (json_body resp) (PStr (resp_text resp)) of
           Inl e \<Rightarrow> Inl e
         | Inr data \<Rightarrow> Inr (PDict (result @ [(''data'', data)])))"

text \<open>\<^verbatim>\<open>return self._process_response(response)\<close> after a client call.\<close>

definition returning :: "(exn + response) \<times> world \<Rightarrow> (exn + pyval) \<times> world" where
  "returning rw =
     (case rw of
        (Inl e, w) \<Rightarrow> (Inl e, w)
      | (Inr resp, w) \<Rightarrow> (process_response resp, w))"

definition execute_tool :: "client \<Rightarrow> string \<Rightarrow> (string \<times> pyval) list \<Rightarrow> world \<Rightarrow> (exn + pyval) \<times> world" where
  "execute_tool c name arguments w =
     (if name = ''scim_list_users'' then
        returning (get_users c (dict_get arguments ''start_index'' (PInt 1))
                               (dict_get arguments ''count'' (PInt 100))
                               (dict_get arguments ''filter'' PNone) w)
      else if name = ''scim_get_user'' then
        (case dict_item arguments ''user_id'' of
           Inl e \<Rightarrow> (Inl e, w)
         | Inr user_id \<Rightarrow> returning (get_user c user_id w))
      else if name = ''scim_create_user'' then
        (case dict_item arguments ''email'' of
           Inl e \<Rightarrow> (Inl e, w)
         | Inr email \<Rightarrow>
        (case dict_item arguments ''first_name'' of
           Inl e \<Rightarrow> (Inl e, w)
         | Inr first_name \<Rightarrow>
        (case dict_item arguments ''last_name'' of
           Inl e \<Rightarrow> (Inl e, w)
         | Inr last_name \<Rightarrow>
             returning (create_user c email first_name last_name
                          (dict_get arguments ''external_id'' PNone)
                          (dict_get arguments ''password'' PNone) w))))
      else if name = ''scim_update_user'' then
        (case dict_item arguments ''user_id'' of
           Inl e \<Rightarrow> (Inl e, w)
         | Inr user_id \<Rightarrow>
        (case dict_item arguments ''user_data'' of
           Inl e \<Rightarrow> (Inl e, w)
         | Inr user_data \<Rightarrow> returning (update_user c user_id user_data w)))
      else if name = ''scim_delete_user'' then
        (case dict_item arguments ''user_id'' of
           Inl e \<Rightarrow> (Inl e, w)
         | Inr user_id \<Rightarrow> returning (delete_user c user_id w))
      else if name = ''scim_list_groups'' then
        returning (get_groups c (dict_get arguments ''start_index'' (PInt 1))
                                (dict_get arguments ''count'' (PInt 100))
                                (dict_get arguments ''filter'' PNone) w)
      else if name = ''scim_get_group'' then
        (case dict_item arguments ''group_id'' of
           Inl e \<Rightarrow> (Inl e, w)
         | Inr group_id \<Rightarrow> returning (get_group c group_id w))
      else if name = ''scim_create_group'' then
        (case dict_item arguments ''display_name'' of
           Inl e \<Rightarrow> (Inl e, w)
         | Inr display_name \<Rightarrow>
             returning (create_group c display_name (dict_get arguments ''external_id'' PNone) w))
      else if name = ''scim_update_group'' then
        (case dict_item arguments ''group_id'' of
           Inl e \<Rightarrow> (Inl e, w)
         | Inr group_id \<Rightarrow>
        (case dict_item arguments ''group_data'' of
           Inl e \<Rightarrow> (Inl e, w)
         | Inr group_data \<Rightarrow> returning (update_group c group_id group_data w)))
      else if name = ''scim_delete_group'' then
        (case dict_item arguments ''group_id'' of
           Inl e \<Rightarrow> (Inl e, w)
         | Inr group_id \<Rightarrow> returning (delete_group c group_id w))
      else if name = ''scim_add_users_to_group'' then
        (case dict_item arguments ''group_id'' of
           Inl e \<Rightarrow> (Inl e, w)
         | Inr group_id \<Rightarrow>
        (case dict_item arguments ''user_ids'' of
           Inl e \<Rightarrow> (Inl e, w)
         | Inr user_ids \<Rightarrow> returning (add_members_to_group c group_id user_ids w)))
      else if name = ''scim_remove_users_from_group'' then
        (case dict_item arguments ''group_id'' of
           Inl e \<Rightarrow> (Inl e, w)
         | Inr group_id \<Rightarrow>
        (case dict_item arguments ''user_ids'' of
           Inl e \<Rightarrow> (Inl e, w)
         | Inr user_ids \<Rightarrow> returning (remove_members_from_group c group_id user_ids w)))
      else (Inl (ValueError (''Unknown tool: '' @ name)), w))"

text \<open>
  \<^verbatim>\<open>handle_call_tool\<close>. Its result is the dict that the code serialises into the
  text of the reply, or the exception that leaves the handler; the serialisation itself
  is not modelled. The client is built on first use, before the \<^verbatim>\<open>try\<close>.
\<close>

definition error_envelope :: "exn \<Rightarrow> string \<Rightarrow> (string \<times> pyval) list option \<Rightarrow> pyval" where
  "error_envelope e name arguments =
     PDict [(''error'', PStr (exn_str e)),
            (''tool'', PStr name),
            (''arguments'', (case arguments of None \<Rightarrow> PNone | Some d \<Rightarrow> PDict d))]"

definition handle_call_tool :: "server \<Rightarrow> string \<Rightarrow> (string \<times> pyval) list option \<Rightarrow> world \<Rightarrow> (exn + pyval) \<times> server \<times> world" where
  "handle_call_tool srv name arguments w =
     (case (case client_of srv of
              None \<Rightarrow> SCIMClient_init None None w
            | Some c \<Rightarrow> (Inr c, w)) of
        (Inl e, w1) \<Rightarrow> (Inl e, srv, w1)
      | (Inr c, w1) \<Rightarrow>
          (let srv1 = srv\<lparr>client_of := Some c\<rparr> in
           case execute_tool c name (case arguments of None \<Rightarrow> [] | Some d \<Rightarrow> d) w1 of
             (Inr result, w2) \<Rightarrow> (Inr result, srv1, w2)
           | (Inl e, w2) \<Rightarrow> (Inr (error_envelope e name arguments), srv1, w2)))"

text \<open>The registry of tools, as \<^verbatim>\<open>handle_list_tools\<close> declares them.\<close>

definition tool_names :: "string list" where
  "tool_names =
     [''scim_list_users'', ''scim_get_user'', ''scim_create_user'', ''scim_update_user'',
      ''scim_delete_user'', ''scim_list_groups'', ''scim_get_group'', ''scim_create_group'',
      ''scim_update_group'', ''scim_delete_group'', ''scim_add_users_to_group'',
      ''scim_remove_users_from_group'']"

section \<open>Concrete worlds for the examples\<close>

text \<open>No configuration in the environment, and a remote end that cannot be reached.\<close>

definition bare_world :: world where
  "bare_world =
     \<lparr> environ = (\<lambda>k. None),
       remote = (\<lambda>h. Inl (RequestException ''unreachable'')),
       sent = [],
       rand = (\<lambda>n. 0) \<rparr>"

text \<open>A configured environment, and a remote end that answers 404 with a JSON body.\<close>

definition lab_world :: world where
  "lab_world =
     \<lparr> environ = map_of [(''SCIM_BASE_URL'', ''https://h/v2/''), (''SCIM_TOKEN'', ''tk'')],
       remote = (\<lambda>h. Inr \<lparr> status_code = 404, resp_text = ''{}'', json_body = Inr (PDict []) \<rparr>),
       sent = [],
       rand = (\<lambda>n. 7 * n + 3) \<rparr>"

definition lab_client :: client where
  "lab_client =
     \<lparr> base_url = ''https://h/v2'',
       token = ''tk'',
       headers = [(''Authorization'', ''Bearer tk''),
                  (''Content-Type'', ''application/scim+json''),
                  (''Accept'', ''application/scim+json'')],
       debug = False \<rparr>"

section \<open>Notions the claims are stated with\<close>

definition is_letter :: "char \<Rightarrow> bool" where
  "is_letter ch = (ch \<in> set ascii_letters)"

definition is_digit :: "char \<Rightarrow> bool" where
  "is_digit ch = (ch \<in> set digits)"

section \<open>Strings: stripping slashes, decimal numerals\<close>

lemma takeWhile_eq_replicate:
  "takeWhile (\<lambda>x. x = c) s = replicate (length (takeWhile (\<lambda>x. x = c) s)) c"
  by (induction s) simp_all

lemma rstrip_replicate: "\<exists>n. s = rstrip c s @ replicate n c"
proof -
  have "rev s = takeWhile (\<lambda>x. x = c) (rev s) @ dropWhile (\<lambda>x. x = c) (rev s)"
    by simp
  then have "rev (rev s) = rev (takeWhile (\<lambda>x. x = c) (rev s) @ dropWhile (\<lambda>x. x = c) (rev s))"
    by simp
  then have "s = rev (dropWhile (\<lambda>x. x = c) (rev s)) @ rev (takeWhile (\<lambda>x. x = c) (rev s))"
    by (simp only: rev_rev_ident rev_append)
  moreover have "rev (takeWhile (\<lambda>x. x = c) (rev s)) = replicate (length (takeWhile (\<lambda>x. x = c) (rev s))) c"
    using takeWhile_eq_replicate[of c "rev s"] by (metis rev_replicate)
  ultimately have "s = rstrip c s @ replicate (length (takeWhile (\<lambda>x. x = c) (rev s))) c"
    unfolding rstrip_def by simp
  then show ?thesis ..
qed

lemma rstrip_no_trailing: "rstrip c s = [] \<or> last (rstrip c s) \<noteq> c"
proof (cases "dropWhile (\<lambda>x. x = c) (rev s)")
  case Nil
  then show ?thesis by (simp add: rstrip_def)
next
  case (Cons y ys)
  then have "y \<noteq> c" using hd_dropWhile[of "\<lambda>x. x = c" "rev s"] by simp
  with Cons show ?thesis by (simp add: rstrip_def)
qed

lemma rstrip_none: "s = [] \<or> last s \<noteq> c \<Longrightarrow> rstrip c s = s"
proof (cases s rule: rev_cases)
  case Nil
  then show ?thesis by (simp add: rstrip_def)
next
  case (snoc ys y)
  assume "s = [] \<or> last s \<noteq> c"
  with snoc have "y \<noteq> c" by simp
  with snoc show ?thesis by (simp add: rstrip_def)
qed

lemma rstrip_snoc: "rstrip c (s @ [c]) = rstrip c s"
  by (simp add: rstrip_def)

lemma lstrip_replicate: "\<exists>n. s = replicate n c @ lstrip c s"
proof -
  have "s = takeWhile (\<lambda>x. x = c) s @ dropWhile (\<lambda>x. x = c) s"
    by simp
  then have "s = replicate (length (takeWhile (\<lambda>x. x = c) s)) c @ lstrip c s"
    unfolding lstrip_def using takeWhile_eq_replicate[of c s] by simp
  then show ?thesis ..
qed

lemma lstrip_no_leading: "lstrip c s = [] \<or> hd (lstrip c s) \<noteq> c"
  unfolding lstrip_def using hd_dropWhile[of "\<lambda>x. x = c" s] by blast

section \<open>Construction of the client\<close>

lemma or_else_absent:
  "(or_else a b = None \<or> or_else a b = Some []) =
     ((a = None \<or> a = Some []) \<and> (b = None \<or> b = Some []))"
  by (cases a; cases b) (simp_all add: or_else_def)

lemma init_cases:
  "SCIMClient_init b t w =
     (if or_else b (environ w ''SCIM_BASE_URL'') = None \<or> or_else b (environ w ''SCIM_BASE_URL'') = Some []
      then (Inl (ValueError base_url_missing), w)
      else if or_else t (environ w ''SCIM_TOKEN'') = None \<or> or_else t (environ w ''SCIM_TOKEN'') = Some []
      then (Inl (ValueError token_missing), w)
      else (Inr \<lparr> base_url = rstrip CHR ''/'' (the (or_else b (environ w ''SCIM_BASE_URL''))),
                   token = the (or_else t (environ w ''SCIM_TOKEN'')),
                   headers = [(''Authorization'', ''Bearer '' @ the (or_else t (environ w ''SCIM_TOKEN''))),
                              (''Content-Type'', ''application/scim+json''),
                              (''Accept'', ''application/scim+json'')],
                   debug = (lower (case environ w ''DEBUG'' of None \<Rightarrow> ''false'' | Some v \<Rightarrow> v)
                              \<in> set [''true'', ''1'', ''yes'']) \<rparr>, w))"
  unfolding SCIMClient_init_def
  by (cases "or_else b (environ w ''SCIM_BASE_URL'')"; cases "or_else t (environ w ''SCIM_TOKEN'')")
     (simp_all only: option.case if_True if_False option.sel option.distinct option.inject simp_thms split: if_split)

lemma make_request_sent:
  "sent (snd (make_request c method endpoint payload w)) =
     sent w @ [\<lparr> req_method = method, req_url = base_url c @ ''/'' @ lstrip CHR ''/'' endpoint,
                 req_headers = headers c, req_json = payload, req_timeout = 30 \<rparr>]"
  unfolding make_request_def Let_def
  by (cases "remote w (sent w @ [\<lparr> req_method = method, req_url = base_url c @ ''/'' @ lstrip CHR ''/'' endpoint,
                 req_headers = headers c, req_json = payload, req_timeout = 30 \<rparr>])";
      cases "log_request_response c (projr (remote w (sent w @ [\<lparr> req_method = method, req_url = base_url c @ ''/'' @ lstrip CHR ''/'' endpoint,
                 req_headers = headers c, req_json = payload, req_timeout = 30 \<rparr>])))") simp_all

section \<open>Configuration errors at construction\<close>

text \<open>
  Claim C6. Constructing a client fails with the configuration error (a \<^verbatim>\<open>ValueError\<close>)
  exactly when the base URL or the token is still absent after the environment has been
  consulted, absent meaning \<^verbatim>\<open>None\<close> or the empty string, which the code's
  \<^verbatim>\<open>or\<close> and \<^verbatim>\<open>not\<close> treat alike. With both present the construction yields
  a client. In both cases the world, and with it the list of requests sent, is untouched:
  the error comes at construction time, before any network activity.
\<close>

theorem C6_config_error_at_construction:
  "((\<exists>m. SCIMClient_init b t w = (Inl (ValueError m), w)) =
      (((b = None \<or> b = Some []) \<and>
        (environ w ''SCIM_BASE_URL'' = None \<or> environ w ''SCIM_BASE_URL'' = Some []))
       \<or> ((t = None \<or> t = Some []) \<and>
        (environ w ''SCIM_TOKEN'' = None \<or> environ w ''SCIM_TOKEN'' = Some []))))
   \<and> ((\<exists>c. SCIMClient_init b t w = (Inr c, w)) =
      (\<not> ((b = None \<or> b = Some []) \<and>
        (environ w ''SCIM_BASE_URL'' = None \<or> environ w ''SCIM_BASE_URL'' = Some []))
       \<and> \<not> ((t = None \<or> t = Some []) \<and>
        (environ w ''SCIM_TOKEN'' = None \<or> environ w ''SCIM_TOKEN'' = Some []))))"
proof -
  let ?A = "or_else b (environ w ''SCIM_BASE_URL'') = None \<or> or_else b (environ w ''SCIM_BASE_URL'') = Some []"
  let ?B = "or_else t (environ w ''SCIM_TOKEN'') = None \<or> or_else t (environ w ''SCIM_TOKEN'') = Some []"
  have A: "?A = ((b = None \<or> b = Some []) \<and>
        (environ w ''SCIM_BASE_URL'' = None \<or> environ w ''SCIM_BASE_URL'' = Some []))"
    by (rule or_else_absent)
  have B: "?B = ((t = None \<or> t = Some []) \<and>
        (environ w ''SCIM_TOKEN'' = None \<or> environ w ''SCIM_TOKEN'' = Some []))"
    by (rule or_else_absent)
  show ?thesis
  proof (cases ?A)
    case True
    then have "SCIMClient_init b t w = (Inl (ValueError base_url_missing), w)"
      by (simp only: init_cases if_True)
    with True show ?thesis unfolding A [symmetric] B [symmetric] by simp
  next
    case False
    note nA = this
    show ?thesis
    proof (cases ?B)
      case True
      with nA have "SCIMClient_init b t w = (Inl (ValueError token_missing), w)"
        by (simp only: init_cases if_True if_False)
      with nA True show ?thesis unfolding A [symmetric] B [symmetric] by simp
    next
      case False
      with nA have "\<exists>c. SCIMClient_init b t w = (Inr c, w)"
        by (simp only: init_cases if_False) blast
      then obtain c where "SCIMClient_init b t w = (Inr c, w)" ..
      with nA False show ?thesis unfolding A [symmetric] B [symmetric] by simp
    qed
  qed
qed

theorem C6_config_error_at_construction_witness:
  "(\<exists>m. SCIMClient_init (Some ''https://h/v2'') None bare_world = (Inl (ValueError m), bare_world))
   \<and> (\<exists>c. SCIMClient_init (Some ''https://h/v2'') (Some ''tk'') bare_world = (Inr c, bare_world))"
  using C6_config_error_at_construction [of "Some ''https://h/v2''" None bare_world]
        C6_config_error_at_construction [of "Some ''https://h/v2''" "Some ''tk''" bare_world]
  by (simp add: bare_world_def)

section \<open>Normalising responses\<close>

text \<open>
  Claim C3. For every response the client hands back, the normalisation returns (it never
  raises) the envelope with the response's status code, with \<open>success\<close> true exactly
  when the status code is below 400, and with \<open>data\<close> the parsed JSON body, or the raw
  body text when parsing the body raises, whatever the exception.
\<close>

theorem C3_process_response_envelope:
  "process_response resp =
     Inr (PDict [(''status_code'', PInt (status_code resp)),
                 (''success'', PBool (status_code resp < 400)),
                 (''data'', (case json_body resp of
                               Inr parsed \<Rightarrow> parsed
                             | Inl e \<Rightarrow> PStr (resp_text resp)))])"
  by (simp add: process_response_def try_except_def split: sum.splits)

theorem C3_process_response_envelope_witness:
  "process_response \<lparr> status_code = 404, resp_text = ''{}'', json_body = Inr (PDict []) \<rparr> =
     Inr (PDict [(''status_code'', PInt 404), (''success'', PBool False), (''data'', PDict [])])
   \<and> process_response \<lparr> status_code = 200, resp_text = ''<html>'',
                          json_body = Inl (JSONDecodeError ''Expecting value'') \<rparr> =
     Inr (PDict [(''status_code'', PInt 200), (''success'', PBool True), (''data'', PStr ''<html>'')])"
  using C3_process_response_envelope
          [of "\<lparr> status_code = 404, resp_text = ''{}'', json_body = Inr (PDict []) \<rparr>"]
        C3_process_response_envelope
          [of "\<lparr> status_code = 200, resp_text = ''<html>'',
                 json_body = Inl (JSONDecodeError ''Expecting value'') \<rparr>"]
  by simp

section \<open>Group membership\<close>

lemma remove_loop_map:
  "remove_loop ops ids =
     ops @ map (\<lambda>u. PDict [(''op'', PStr ''remove''),
                  (''path'', PStr (''members[value eq '' @ [CHR 0x22] @ py_str u @ [CHR 0x22] @ '']''))]) ids"
  by (induction ids arbitrary: ops) simp_all

lemma py_str_PStr: "py_str (PStr s) = s"
  by (simp add: py_str_def)

text \<open>
  Claim C4. For every group id and every list of user ids, \<open>remove_members_from_group\<close>
  issues one PATCH request to \<open>Groups/<group id>\<close> whose body holds the PatchOp schema
  list and an \<open>Operations\<close> list with one entry per user id, in the order of the input
  list, each entry being exactly \<open>op = remove\<close> and \<open>path = members[value eq "<id>"]\<close>,
  with no \<open>value\<close> field.
\<close>

theorem C4_remove_one_operation_per_id:
  "sent (snd (remove_members_from_group c (PStr group_id) (PList (map PStr user_ids)) w)) =
     sent w @
       [\<lparr> req_method = ''PATCH'',
           req_url = base_url c @ ''/Groups/'' @ group_id,
           req_headers = headers c,
           req_json = Some (PDict
             [(''schemas'', PList [PStr ''urn:ietf:params:scim:api:messages:2.0:PatchOp'']),
              (''Operations'', PList (map
                 (\<lambda>user_id. PDict [(''op'', PStr ''remove''),
                                    (''path'', PStr (''members[value eq '' @ [CHR 0x22] @ user_id @ [CHR 0x22] @ '']''))])
                 user_ids))]),
           req_timeout = 30 \<rparr>]"
  by (simp add: remove_members_from_group_def patch_group_def make_request_sent remove_loop_map
        py_str_PStr lstrip_def comp_def)

theorem C4_remove_one_operation_per_id_witness:
  "sent (snd (remove_members_from_group lab_client (PStr ''g1'') (PList [PStr ''a'', PStr ''b'']) lab_world)) =
       [\<lparr> req_method = ''PATCH'',
           req_url = ''https://h/v2/Groups/g1'',
           req_headers = [(''Authorization'', ''Bearer tk''),
                          (''Content-Type'', ''application/scim+json''),
                          (''Accept'', ''application/scim+json'')],
           req_json = Some (PDict
             [(''schemas'', PList [PStr ''urn:ietf:params:scim:api:messages:2.0:PatchOp'']),
              (''Operations'', PList
                 [PDict [(''op'', PStr ''remove''), (''path'', PStr (''members[value eq '' @ [CHR 0x22] @ ''a'' @ [CHR 0x22] @ '']''))],
                  PDict [(''op'', PStr ''remove''), (''path'', PStr (''members[value eq '' @ [CHR 0x22] @ ''b'' @ [CHR 0x22] @ '']''))]])]),
           req_timeout = 30 \<rparr>]"
  using C4_remove_one_operation_per_id [of lab_client "''g1''" "[''a'', ''b'']" lab_world]
  by (simp add: lab_client_def lab_world_def)

section \<open>Base URL, headers and request URLs\<close>

lemma init_success:
  assumes "SCIMClient_init b t w = (Inr c, w')"
  shows "\<exists>r k. or_else b (environ w ''SCIM_BASE_URL'') = Some r
             \<and> or_else t (environ w ''SCIM_TOKEN'') = Some k
             \<and> base_url c = rstrip CHR ''/'' r
             \<and> headers c = [(''Authorization'', ''Bearer '' @ k),
                              (''Content-Type'', ''application/scim+json''),
                              (''Accept'', ''application/scim+json'')]"
proof -
  let ?A = "or_else b (environ w ''SCIM_BASE_URL'') = None \<or> or_else b (environ w ''SCIM_BASE_URL'') = Some []"
  let ?B = "or_else t (environ w ''SCIM_TOKEN'') = None \<or> or_else t (environ w ''SCIM_TOKEN'') = Some []"
  have nA: "\<not> ?A"
  proof
    assume ?A
    then have "SCIMClient_init b t w = (Inl (ValueError base_url_missing), w)"
      by (simp only: init_cases if_True)
    with assms show False by simp
  qed
  have nB: "\<not> ?B"
  proof
    assume ?B
    with nA have "SCIMClient_init b t w = (Inl (ValueError token_missing), w)"
      by (simp only: init_cases if_True if_False)
    with assms show False by simp
  qed
  from nA obtain r where r: "or_else b (environ w ''SCIM_BASE_URL'') = Some r"
    by (cases "or_else b (environ w ''SCIM_BASE_URL'')") simp_all
  from nB obtain k where k: "or_else t (environ w ''SCIM_TOKEN'') = Some k"
    by (cases "or_else t (environ w ''SCIM_TOKEN'')") simp_all
  from nA nB have "fst (SCIMClient_init b t w) =
      Inr \<lparr> base_url = rstrip CHR ''/'' (the (or_else b (environ w ''SCIM_BASE_URL''))),
                   token = the (or_else t (environ w ''SCIM_TOKEN'')),
                   headers = [(''Authorization'', ''Bearer '' @ the (or_else t (environ w ''SCIM_TOKEN''))),
                              (''Content-Type'', ''application/scim+json''),
                              (''Accept'', ''application/scim+json'')],
                   debug = (lower (case environ w ''DEBUG'' of None \<Rightarrow> ''false'' | Some v \<Rightarrow> v)
                              \<in> set [''true'', ''1'', ''yes'']) \<rparr>"
    by (simp only: init_cases if_False fst_conv)
  with assms have c: "c = \<lparr> base_url = rstrip CHR ''/'' (the (or_else b (environ w ''SCIM_BASE_URL''))),
                   token = the (or_else t (environ w ''SCIM_TOKEN'')),
                   headers = [(''Authorization'', ''Bearer '' @ the (or_else t (environ w ''SCIM_TOKEN''))),
                              (''Content-Type'', ''application/scim+json''),
                              (''Accept'', ''application/scim+json'')],
                   debug = (lower (case environ w ''DEBUG'' of None \<Rightarrow> ''false'' | Some v \<Rightarrow> v)
                              \<in> set [''true'', ''1'', ''yes'']) \<rparr>"
    by (simp only: fst_conv sum.inject)
  have "base_url c = rstrip CHR ''/'' r"
    by (subst c) (simp only: client.select_convs r option.sel)
  moreover have "headers c = [(''Authorization'', ''Bearer '' @ k),
                              (''Content-Type'', ''application/scim+json''),
                              (''Accept'', ''application/scim+json'')]"
    by (subst c) (simp only: client.select_convs k option.sel)
  ultimately show ?thesis using r k by blast
qed

text \<open>
  Claim C1. For every base URL and token accepted at construction: a base URL with one
  trailing slash loses exactly that slash and no other character, and a base URL with
  no trailing slash is kept as it is. (Repeated trailing slashes, which the
  specification leaves open, are all removed: the client's base URL never ends in a
  slash and differs from the resolved one by trailing slashes only.) The Authorization
  header is \<open>Bearer\<close>, a space and the token. Every request goes to the client's base
  URL, one slash, and the endpoint path without its leading slashes, so exactly one slash
  stands between the two whether or not the endpoint path carries a leading slash.
\<close>

theorem C1_base_url_header_and_request_url:
  "SCIMClient_init b t w = (Inr c, w') \<Longrightarrow>
     (\<exists>r k n. or_else b (environ w ''SCIM_BASE_URL'') = Some r
          \<and> or_else t (environ w ''SCIM_TOKEN'') = Some k
          \<and> r = base_url c @ replicate n CHR ''/''
          \<and> (base_url c = [] \<or> last (base_url c) \<noteq> CHR ''/'')
          \<and> (\<forall>s. r = s @ ''/'' \<and> (s = [] \<or> last s \<noteq> CHR ''/'') \<longrightarrow> base_url c = s)
          \<and> (r = [] \<or> last r \<noteq> CHR ''/'' \<longrightarrow> base_url c = r)
          \<and> map_of (headers c) ''Authorization'' = Some (''Bearer '' @ k))
   \<and> (\<forall>method endpoint payload w1. \<exists>n path. endpoint = replicate n CHR ''/'' @ path
          \<and> (path = [] \<or> hd path \<noteq> CHR ''/'')
          \<and> sent (snd (make_request c method endpoint payload w1)) =
              sent w1 @ [\<lparr> req_method = method, req_url = base_url c @ ''/'' @ path,
                           req_headers = headers c, req_json = payload, req_timeout = 30 \<rparr>])"
proof -
  assume ok: "SCIMClient_init b t w = (Inr c, w')"
  from init_success [OF ok] obtain r k where
    r: "or_else b (environ w ''SCIM_BASE_URL'') = Some r" and
    k: "or_else t (environ w ''SCIM_TOKEN'') = Some k" and
    bu: "base_url c = rstrip CHR ''/'' r" and
    hs: "headers c = [(''Authorization'', ''Bearer '' @ k),
                      (''Content-Type'', ''application/scim+json''),
                      (''Accept'', ''application/scim+json'')]"
    by blast
  from rstrip_replicate [of r "CHR ''/''"] obtain n where n: "r = base_url c @ replicate n CHR ''/''"
    unfolding bu by blast
  have nt: "base_url c = [] \<or> last (base_url c) \<noteq> CHR ''/''"
    unfolding bu by (rule rstrip_no_trailing)
  have one: "\<forall>s. r = s @ ''/'' \<and> (s = [] \<or> last s \<noteq> CHR ''/'') \<longrightarrow> base_url c = s"
  proof (intro allI impI)
    fix s assume "r = s @ ''/'' \<and> (s = [] \<or> last s \<noteq> CHR ''/'')"
    then have "r = s @ [CHR ''/'']" and s: "s = [] \<or> last s \<noteq> CHR ''/''" by simp_all
    then have "rstrip CHR ''/'' r = rstrip CHR ''/'' s" by (simp only: rstrip_snoc)
    also have "\<dots> = s" using s by (rule rstrip_none)
    finally show "base_url c = s" unfolding bu .
  qed
  have none: "r = [] \<or> last r \<noteq> CHR ''/'' \<longrightarrow> base_url c = r"
    unfolding bu using rstrip_none [of r "CHR ''/''"] by blast
  have au: "map_of (headers c) ''Authorization'' = Some (''Bearer '' @ k)"
    unfolding hs by simp
  have first: "\<exists>r k n. or_else b (environ w ''SCIM_BASE_URL'') = Some r
          \<and> or_else t (environ w ''SCIM_TOKEN'') = Some k
          \<and> r = base_url c @ replicate n CHR ''/''
          \<and> (base_url c = [] \<or> last (base_url c) \<noteq> CHR ''/'')
          \<and> (\<forall>s. r = s @ ''/'' \<and> (s = [] \<or> last s \<noteq> CHR ''/'') \<longrightarrow> base_url c = s)
          \<and> (r = [] \<or> last r \<noteq> CHR ''/'' \<longrightarrow> base_url c = r)
          \<and> map_of (headers c) ''Authorization'' = Some (''Bearer '' @ k)"
    using r k n nt one none au by blast
  have second: "\<forall>method endpoint payload w1. \<exists>n path. endpoint = replicate n CHR ''/'' @ path
          \<and> (path = [] \<or> hd path \<noteq> CHR ''/'')
          \<and> sent (snd (make_request c method endpoint payload w1)) =
              sent w1 @ [\<lparr> req_method = method, req_url = base_url c @ ''/'' @ path,
                           req_headers = headers c, req_json = payload, req_timeout = 30 \<rparr>]"
  proof (intro allI)
    fix meth endpoint payload w1
    from lstrip_replicate [of endpoint "CHR ''/''"] obtain m where
      m: "endpoint = replicate m CHR ''/'' @ lstrip CHR ''/'' endpoint" by blast
    have "lstrip CHR ''/'' endpoint = [] \<or> hd (lstrip CHR ''/'' endpoint) \<noteq> CHR ''/''"
      by (rule lstrip_no_leading)
    with m make_request_sent [of c meth endpoint payload w1]
    show "\<exists>n path. endpoint = replicate n CHR ''/'' @ path
          \<and> (path = [] \<or> hd path \<noteq> CHR ''/'')
          \<and> sent (snd (make_request c meth endpoint payload w1)) =
              sent w1 @ [\<lparr> req_method = meth, req_url = base_url c @ ''/'' @ path,
                           req_headers = headers c, req_json = payload, req_timeout = 30 \<rparr>]"
      by blast
  qed
  from first second show ?thesis by (rule conjI)
qed


theorem C1_base_url_header_and_request_url_witness:
  "SCIMClient_init (Some ''https://h/v2/'') (Some ''tk'') bare_world = (Inr lab_client, bare_world)
   \<and> ((\<exists>r k n. or_else (Some ''https://h/v2/'') (environ bare_world ''SCIM_BASE_URL'') = Some r
          \<and> or_else (Some ''tk'') (environ bare_world ''SCIM_TOKEN'') = Some k
          \<and> r = base_url lab_client @ replicate n CHR ''/''
          \<and> (base_url lab_client = [] \<or> last (base_url lab_client) \<noteq> CHR ''/'')
          \<and> (\<forall>s. r = s @ ''/'' \<and> (s = [] \<or> last s \<noteq> CHR ''/'') \<longrightarrow> base_url lab_client = s)
          \<and> (r = [] \<or> last r \<noteq> CHR ''/'' \<longrightarrow> base_url lab_client = r)
          \<and> map_of (headers lab_client) ''Authorization'' = Some (''Bearer '' @ k))
   \<and> (\<forall>method endpoint payload w1. \<exists>n path. endpoint = replicate n CHR ''/'' @ path
          \<and> (path = [] \<or> hd path \<noteq> CHR ''/'')
          \<and> sent (snd (make_request lab_client method endpoint payload w1)) =
              sent w1 @ [\<lparr> req_method = method, req_url = base_url lab_client @ ''/'' @ path,
                           req_headers = headers lab_client, req_json = payload, req_timeout = 30 \<rparr>]))"
proof -
  have h: "SCIMClient_init (Some ''https://h/v2/'') (Some ''tk'') bare_world = (Inr lab_client, bare_world)"
    by (simp add: SCIMClient_init_def or_else_def rstrip_def bare_world_def lab_client_def
          lower_def lower_char_def ascii_uppercase_def ascii_lowercase_def)
  from h C1_base_url_header_and_request_url [OF h] show ?thesis by (rule conjI)
qed

section \<open>Decimal numerals\<close>

lemma digit_char_digits: "d < 10 \<Longrightarrow> digit_char d \<in> set digits"
proof -
  assume "d < 10"
  then have "d < length digits" by (simp add: digits_def)
  then show ?thesis unfolding digit_char_def by (rule nth_mem)
qed

lemma str_nat_digits: "set (str_nat n) \<subseteq> set digits"
proof (induction n rule: str_nat.induct)
  case (1 n)
  show ?case
  proof (cases "n < 10")
    case True
    then show ?thesis by (subst str_nat.simps) (simp add: digit_char_digits)
  next
    case False
    have "n mod 10 < 10" by simp
    then have "digit_char (n mod 10) \<in> set digits" by (rule digit_char_digits)
    with False 1 show ?thesis by (subst str_nat.simps) simp
  qed
qed

lemma str_nat_nonempty: "str_nat n \<noteq> []"
  by (subst str_nat.simps) simp

lemma str_int_chars: "set (str_int i) \<subseteq> insert CHR ''-'' (set digits)"
  using str_nat_digits by (auto simp: str_int_def)

lemma f_not_digit: "CHR ''f'' \<notin> insert CHR ''-'' (set digits)"
  by (simp add: digits_def)

lemma str_int_no_f: "CHR ''f'' \<notin> set (str_int i)"
  using str_int_chars [of i] f_not_digit by blast


lemma no_filter_in_query:
  "\<nexists>pre post. ''startIndex='' @ str_int s @ ''&count='' @ str_int n = pre @ ''filter'' @ post"
proof
  assume "\<exists>pre post. ''startIndex='' @ str_int s @ ''&count='' @ str_int n = pre @ ''filter'' @ post"
  then obtain pre post where "''startIndex='' @ str_int s @ ''&count='' @ str_int n = pre @ ''filter'' @ post"
    by blast
  then have "set (''startIndex='' @ str_int s @ ''&count='' @ str_int n) = set (pre @ ''filter'' @ post)"
    by (rule arg_cong)
  then have "CHR ''f'' \<in> set (''startIndex='' @ str_int s @ ''&count='' @ str_int n)"
    by simp
  then have "CHR ''f'' \<in> set (str_int s) \<or> CHR ''f'' \<in> set (str_int n)"
    by simp
  with str_int_no_f show False by blast
qed

section \<open>Listing users and groups\<close>

lemma py_min_PInt: "py_min (PInt n) 100 = Inr (PInt (min n 100))"
  by (simp add: min_def)

lemma py_str_PInt: "py_str (PInt n) = str_int n"
  by (simp add: py_str_def)

text \<open>
  Claim C5. For every call of \<open>get_users\<close> or \<open>get_groups\<close> with integer start index
  and count, the request is a GET whose query string is \<open>startIndex=\<close> the start
  index, \<open>&count=\<close> the minimum of the requested count and 100, and \<open>&filter=\<close> the
  filter expression only when one is supplied. Without one the query string stops after
  the count and holds no \<open>filter\<close> anywhere.
\<close>

theorem C5_count_clamped_filter_omitted:
  "(let q = ''startIndex='' @ str_int start_index @ ''&count='' @ str_int (min count 100) in
      sent (snd (get_users c (PInt start_index) (PInt count) filter_expr w)) =
        sent w @ [\<lparr> req_method = ''GET'',
                     req_url = base_url c @ ''/Users?'' @ q @
                       (if truthy filter_expr then ''&filter='' @ py_str filter_expr else []),
                     req_headers = headers c, req_json = None, req_timeout = 30 \<rparr>]
    \<and> sent (snd (get_groups c (PInt start_index) (PInt count) filter_expr w)) =
        sent w @ [\<lparr> req_method = ''GET'',
                     req_url = base_url c @ ''/Groups?'' @ q @
                       (if truthy filter_expr then ''&filter='' @ py_str filter_expr else []),
                     req_headers = headers c, req_json = None, req_timeout = 30 \<rparr>]
    \<and> (\<nexists>pre post. q = pre @ ''filter'' @ post))"
proof -
  have u: "sent (snd (get_users c (PInt start_index) (PInt count) filter_expr w)) =
        sent w @ [\<lparr> req_method = ''GET'',
                     req_url = base_url c @ ''/Users?'' @ (''startIndex='' @ str_int start_index @ ''&count='' @ str_int (min count 100)) @
                       (if truthy filter_expr then ''&filter='' @ py_str filter_expr else []),
                     req_headers = headers c, req_json = None, req_timeout = 30 \<rparr>]"
    by (simp add: get_users_def py_min_PInt make_request_sent py_str_PInt lstrip_def)
  have g: "sent (snd (get_groups c (PInt start_index) (PInt count) filter_expr w)) =
        sent w @ [\<lparr> req_method = ''GET'',
                     req_url = base_url c @ ''/Groups?'' @ (''startIndex='' @ str_int start_index @ ''&count='' @ str_int (min count 100)) @
                       (if truthy filter_expr then ''&filter='' @ py_str filter_expr else []),
                     req_headers = headers c, req_json = None, req_timeout = 30 \<rparr>]"
    by (simp add: get_groups_def py_min_PInt make_request_sent py_str_PInt lstrip_def)
  from u g no_filter_in_query [of start_index "min count 100"] show ?thesis
    unfolding Let_def by (intro conjI)
qed


lemma str_int_1: "str_int 1 = ''1''"
  by (simp add: str_int_def str_nat.simps digit_char_def digits_def)

lemma str_int_100: "str_int 100 = ''100''"
  by (simp add: str_int_def str_nat.simps digit_char_def digits_def)

theorem C5_count_clamped_filter_omitted_witness:
  "sent (snd (get_users lab_client (PInt 1) (PInt 250) PNone lab_world)) =
        [\<lparr> req_method = ''GET'',
            req_url = ''https://h/v2/Users?startIndex=1&count=100'',
            req_headers = headers lab_client, req_json = None, req_timeout = 30 \<rparr>]
   \<and> sent (snd (get_groups lab_client (PInt 1) (PInt 250) PNone lab_world)) =
        [\<lparr> req_method = ''GET'',
            req_url = ''https://h/v2/Groups?startIndex=1&count=100'',
            req_headers = headers lab_client, req_json = None, req_timeout = 30 \<rparr>]"
  using C5_count_clamped_filter_omitted [of 1 250 lab_client PNone lab_world]
  by (simp add: Let_def str_int_1 str_int_100 lab_client_def lab_world_def)

section \<open>The random source\<close>

lemma random_next_sent: "sent (snd (random_next w)) = sent w"
  by (simp add: random_next_def)

lemma random_choice_sent: "sent (snd (random_choice xs w)) = sent w"
  by (simp add: random_choice_def split_def Let_def random_next_sent)

lemma random_choice_mem: "xs \<noteq> [] \<Longrightarrow> fst (random_choice xs w) \<in> set xs"
  by (simp add: random_choice_def split_def Let_def)

lemma random_randint_sent: "sent (snd (random_randint a b w)) = sent w"
  by (simp add: random_randint_def split_def Let_def random_next_sent)

lemma random_randint_range:
  "a \<le> b \<Longrightarrow> a \<le> fst (random_randint a b w) \<and> fst (random_randint a b w) \<le> b"
proof -
  assume ab: "a \<le> b"
  let ?r = "fst (random_next w)"
  have "?r mod nat (b - a + 1) < nat (b - a + 1)" using ab by simp
  then have "int (?r mod nat (b - a + 1)) < b - a + 1" using ab by linarith
  then show ?thesis by (simp add: random_randint_def split_def Let_def)
qed

lemma random_choices_sent: "sent (snd (random_choices xs k w)) = sent w"
  by (induction k arbitrary: w) (simp_all add: split_def Let_def random_choice_sent)

lemma random_choices_length: "length (fst (random_choices xs k w)) = k"
  by (induction k arbitrary: w) (simp_all add: split_def Let_def)

lemma random_choices_set: "xs \<noteq> [] \<Longrightarrow> set (fst (random_choices xs k w)) \<subseteq> set xs"
  by (induction k arbitrary: w) (simp_all add: split_def Let_def random_choice_mem)


section \<open>Generated defaults of \<open>create_user\<close>\<close>

lemma generate_external_id_sent: "sent (snd (generate_external_id w)) = sent w"
  by (simp add: generate_external_id_def random_choices_sent)

lemma generate_external_id_shape:
  "length (fst (generate_external_id w)) = 12
   \<and> set (fst (generate_external_id w)) \<subseteq> set (ascii_uppercase @ ascii_lowercase @ digits)"
proof -
  have ne: "ascii_letters @ digits \<noteq> []" by (simp add: digits_def)
  have "set (ascii_letters @ digits) = set (ascii_uppercase @ ascii_lowercase @ digits)"
    unfolding ascii_letters_def by (simp only: set_append) blast
  with random_choices_set [OF ne, of 12 w] random_choices_length [of "ascii_letters @ digits" 12 w]
  show ?thesis unfolding generate_external_id_def by simp
qed

lemma adjectives_shape: "\<forall>a \<in> set adjectives. 3 \<le> length a \<and> is_letter (hd a)"
  by (simp add: adjectives_def is_letter_def ascii_letters_def ascii_lowercase_def ascii_uppercase_def)

lemma nouns_shape: "\<forall>a \<in> set nouns. 3 \<le> length a"
  by (simp add: nouns_def)

lemma generate_easy_password_sent: "sent (snd (generate_easy_password w)) = sent w"
  by (simp add: generate_easy_password_def split_def Let_def random_choice_sent random_randint_sent)

lemma generate_easy_password_form:
  "\<exists>adjective noun number.
      fst (generate_easy_password w) = adjective @ noun @ str_int number @ ''!''
      \<and> adjective \<in> set adjectives \<and> noun \<in> set nouns
      \<and> 100000 \<le> number \<and> number \<le> 999999"
proof -
  let ?w1 = "snd (random_choice adjectives w)"
  let ?w2 = "snd (random_choice nouns ?w1)"
  let ?adjective = "fst (random_choice adjectives w)"
  let ?noun = "fst (random_choice nouns ?w1)"
  let ?number = "fst (random_randint 100000 999999 ?w2)"
  have "fst (generate_easy_password w) = ?adjective @ ?noun @ str_int ?number @ ''!''"
    by (simp add: generate_easy_password_def split_def Let_def)
  moreover have "adjectives \<noteq> []" by (simp add: adjectives_def)
  then have "?adjective \<in> set adjectives" by (rule random_choice_mem)
  moreover have "nouns \<noteq> []" by (simp add: nouns_def)
  then have "?noun \<in> set nouns" by (rule random_choice_mem)
  moreover have "100000 \<le> ?number \<and> ?number \<le> 999999"
    by (rule random_randint_range) simp
  ultimately show ?thesis by blast
qed

lemma str_int_nonneg_digits: "0 \<le> i \<Longrightarrow> str_int i \<noteq> [] \<and> set (str_int i) \<subseteq> set digits"
  using str_nat_nonempty str_nat_digits by (simp add: str_int_def)

lemma generate_easy_password_shape:
  "6 < length (fst (generate_easy_password w))
   \<and> last (fst (generate_easy_password w)) = CHR ''!''
   \<and> (\<exists>ch \<in> set (fst (generate_easy_password w)). is_letter ch)
   \<and> (\<exists>ch \<in> set (fst (generate_easy_password w)). is_digit ch)"
proof -
  from generate_easy_password_form [of w] obtain adjective noun number where
    pw: "fst (generate_easy_password w) = adjective @ noun @ str_int number @ ''!''" and
    a: "adjective \<in> set adjectives" and n: "noun \<in> set nouns" and
    lo: "100000 \<le> number" and hi: "number \<le> 999999"
    by blast
  from a adjectives_shape have al: "3 \<le> length adjective" and ah: "is_letter (hd adjective)"
    by blast+
  from n nouns_shape have nl: "3 \<le> length noun" by blast
  from lo have "0 \<le> number" by simp
  then have dn: "str_int number \<noteq> []" and dd: "set (str_int number) \<subseteq> set digits"
    using str_int_nonneg_digits by blast+
  from al have "adjective \<noteq> []" by auto
  then have "hd adjective \<in> set adjective" by (rule hd_in_set)
  with ah have letter: "\<exists>ch \<in> set (adjective @ noun @ str_int number @ ''!''). is_letter ch"
    by auto
  from dn have "hd (str_int number) \<in> set (str_int number)" by (rule hd_in_set)
  with dd have "is_digit (hd (str_int number))" and "hd (str_int number) \<in> set (adjective @ noun @ str_int number @ ''!'')"
    unfolding is_digit_def by auto
  then have digit: "\<exists>ch \<in> set (adjective @ noun @ str_int number @ ''!''). is_digit ch"
    by blast
  from dn have "1 \<le> length (str_int number)" by (cases "str_int number") simp_all
  with al nl have len: "6 < length (adjective @ noun @ str_int number @ ''!'')" by simp
  have lst: "last (adjective @ noun @ str_int number @ ''!'') = CHR ''!''" by simp
  from len lst letter digit show ?thesis unfolding pw by blast
qed


lemma create_user_sent:
  "sent (snd (create_user c email firstName lastName externalId password w)) =
     sent w @
       [\<lparr> req_method = ''POST'',
           req_url = base_url c @ ''/Users'',
           req_headers = headers c,
           req_json = Some (PDict
             [(''schemas'', PList [PStr ''urn:ietf:params:scim:schemas:core:2.0:User'']),
              (''userName'', email),
              (''externalId'',
                 if \<not> truthy externalId then PStr (fst (generate_external_id w)) else externalId),
              (''name'', PDict [(''givenName'', firstName), (''familyName'', lastName)]),
              (''emails'', PList [PDict [(''value'', email), (''primary'', PBool True)]]),
              (''password'',
                 if \<not> truthy password
                 then PStr (fst (generate_easy_password
                        (if \<not> truthy externalId then snd (generate_external_id w) else w)))
                 else password),
              (''active'', PBool True)]),
           req_timeout = 30 \<rparr>]"
  by (cases "truthy externalId"; cases "truthy password")
     (simp_all add: create_user_def Let_def split_def make_request_sent lstrip_def
        generate_external_id_sent generate_easy_password_sent)

text \<open>
  Claim C7. For every call of \<open>create_user\<close> with no password supplied, whatever the
  random source draws, the request is a POST to \<open>Users\<close> whose payload holds as
  \<open>password\<close> a string of more than 6 characters that ends in an exclamation mark and
  contains at least one letter and at least one digit.
\<close>

theorem C7_generated_password_shape:
  "\<exists>fields pw.
      sent (snd (create_user c email firstName lastName externalId PNone w)) =
        sent w @ [\<lparr> req_method = ''POST'', req_url = base_url c @ ''/Users'',
                     req_headers = headers c, req_json = Some (PDict fields), req_timeout = 30 \<rparr>]
      \<and> map_of fields ''password'' = Some (PStr pw)
      \<and> 6 < length pw
      \<and> last pw = CHR ''!''
      \<and> (\<exists>ch \<in> set pw. is_letter ch)
      \<and> (\<exists>ch \<in> set pw. is_digit ch)"
proof -
  let ?w1 = "if \<not> truthy externalId then snd (generate_external_id w) else w"
  let ?pw = "fst (generate_easy_password ?w1)"
  let ?fields = "[(''schemas'', PList [PStr ''urn:ietf:params:scim:schemas:core:2.0:User'']),
              (''userName'', email),
              (''externalId'',
                 if \<not> truthy externalId then PStr (fst (generate_external_id w)) else externalId),
              (''name'', PDict [(''givenName'', firstName), (''familyName'', lastName)]),
              (''emails'', PList [PDict [(''value'', email), (''primary'', PBool True)]]),
              (''password'', PStr ?pw),
              (''active'', PBool True)]"
  have "sent (snd (create_user c email firstName lastName externalId PNone w)) =
        sent w @ [\<lparr> req_method = ''POST'', req_url = base_url c @ ''/Users'',
                     req_headers = headers c, req_json = Some (PDict ?fields), req_timeout = 30 \<rparr>]"
    by (simp add: create_user_sent)
  moreover have "map_of ?fields ''password'' = Some (PStr ?pw)"
    by simp
  moreover note generate_easy_password_shape [of ?w1]
  ultimately show ?thesis by blast
qed

lemma random_next_bare: "random_next bare_world = (0, bare_world)"
  by (simp add: random_next_def bare_world_def)

lemma random_choice_bare: "random_choice (x # xs) bare_world = (x, bare_world)"
  by (simp add: random_choice_def random_next_bare)

lemma str_int_100000: "str_int 100000 = ''100000''"
  by (simp add: str_int_def str_nat.simps digit_char_def digits_def)

lemma random_randint_bare: "random_randint a b bare_world = (a, bare_world)"
  by (simp add: random_randint_def random_next_bare)

lemma generate_easy_password_bare: "fst (generate_easy_password bare_world) = ''QuickCat100000!''"
  by (simp add: generate_easy_password_def random_choice_bare random_randint_bare
        adjectives_def nouns_def str_int_100000)

theorem C7_generated_password_shape_witness:
  "(\<exists>fields pw.
      sent (snd (create_user lab_client (PStr ''a@b.c'') (PStr ''Ann'') (PStr ''Bee'') (PStr ''x1'') PNone bare_world)) =
        sent bare_world @ [\<lparr> req_method = ''POST'', req_url = base_url lab_client @ ''/Users'',
                     req_headers = headers lab_client, req_json = Some (PDict fields), req_timeout = 30 \<rparr>]
      \<and> map_of fields ''password'' = Some (PStr pw)
      \<and> 6 < length pw
      \<and> last pw = CHR ''!''
      \<and> (\<exists>ch \<in> set pw. is_letter ch)
      \<and> (\<exists>ch \<in> set pw. is_digit ch))
   \<and> fst (generate_easy_password bare_world) = ''QuickCat100000!''"
  using C7_generated_password_shape
          [of lab_client "PStr ''a@b.c''" "PStr ''Ann''" "PStr ''Bee''" "PStr ''x1''" bare_world]
        generate_easy_password_bare
  by (rule conjI)

text \<open>
  Claim C8. For every call of \<open>create_user\<close> with no external id supplied, whatever
  the random source draws, the request is a POST to \<open>Users\<close> whose payload holds as
  \<open>externalId\<close> a string of exactly 12 characters, each of them an ASCII upper-case
  letter, an ASCII lower-case letter or a decimal digit.
\<close>

theorem C8_generated_external_id_shape:
  "\<exists>fields eid.
      sent (snd (create_user c email firstName lastName PNone password w)) =
        sent w @ [\<lparr> req_method = ''POST'', req_url = base_url c @ ''/Users'',
                     req_headers = headers c, req_json = Some (PDict fields), req_timeout = 30 \<rparr>]
      \<and> map_of fields ''externalId'' = Some (PStr eid)
      \<and> length eid = 12
      \<and> set eid \<subseteq> set (ascii_uppercase @ ascii_lowercase @ digits)"
proof -
  let ?eid = "fst (generate_external_id w)"
  let ?fields = "[(''schemas'', PList [PStr ''urn:ietf:params:scim:schemas:core:2.0:User'']),
              (''userName'', email),
              (''externalId'', PStr ?eid),
              (''name'', PDict [(''givenName'', firstName), (''familyName'', lastName)]),
              (''emails'', PList [PDict [(''value'', email), (''primary'', PBool True)]]),
              (''password'',
                 if \<not> truthy password
                 then PStr (fst (generate_easy_password (snd (generate_external_id w))))
                 else password),
              (''active'', PBool True)]"
  have "sent (snd (create_user c email firstName lastName PNone password w)) =
        sent w @ [\<lparr> req_method = ''POST'', req_url = base_url c @ ''/Users'',
                     req_headers = headers c, req_json = Some (PDict ?fields), req_timeout = 30 \<rparr>]"
    by (simp add: create_user_sent)
  moreover have "map_of ?fields ''externalId'' = Some (PStr ?eid)"
    by simp
  moreover note generate_external_id_shape [of w]
  ultimately show ?thesis by blast
qed

lemma random_choices_bare: "random_choices (x # xs) k bare_world = (replicate k x, bare_world)"
  by (induction k) (simp_all add: random_choice_bare)

lemma generate_external_id_bare: "fst (generate_external_id bare_world) = replicate 12 CHR ''a''"
  by (simp add: generate_external_id_def ascii_letters_def ascii_lowercase_def random_choices_bare)

theorem C8_generated_external_id_shape_witness:
  "(\<exists>fields eid.
      sent (snd (create_user lab_client (PStr ''a@b.c'') (PStr ''Ann'') (PStr ''Bee'') PNone (PStr ''pw'') bare_world)) =
        sent bare_world @ [\<lparr> req_method = ''POST'', req_url = base_url lab_client @ ''/Users'',
                     req_headers = headers lab_client, req_json = Some (PDict fields), req_timeout = 30 \<rparr>]
      \<and> map_of fields ''externalId'' = Some (PStr eid)
      \<and> length eid = 12
      \<and> set eid \<subseteq> set (ascii_uppercase @ ascii_lowercase @ digits))
   \<and> fst (generate_external_id bare_world) = replicate 12 CHR ''a''"
  using C8_generated_external_id_shape
          [of lab_client "PStr ''a@b.c''" "PStr ''Ann''" "PStr ''Bee''" "PStr ''pw''" bare_world]
        generate_external_id_bare
  by (rule conjI)

section \<open>Empty strings at the client's interface\<close>

lemma create_group_sent:
  "sent (snd (create_group c displayName externalId w)) =
     sent w @
       [\<lparr> req_method = ''POST'',
           req_url = base_url c @ ''/Groups'',
           req_headers = headers c,
           req_json = Some (PDict
             [(''schemas'', PList [PStr ''urn:ietf:params:scim:schemas:core:2.0:Group'']),
              (''displayName'', displayName),
              (''externalId'',
                 if \<not> truthy externalId
                 then PStr (str_int (fst (random_randint 10000000 99999999 w)))
                 else externalId)]),
           req_timeout = 30 \<rparr>]"
  by (cases "truthy externalId")
     (simp_all add: create_group_def Let_def split_def make_request_sent lstrip_def random_randint_sent)

text \<open>
  Claim C10. At the client's interface an empty string behaves as an absent argument:
  \<open>create_user\<close> with an empty external id or an empty password, and \<open>create_group\<close>
  with an empty external id, do exactly what they do with \<open>None\<close>, so the payload
  carries the generated default; \<open>get_users\<close> and \<open>get_groups\<close> with an empty filter
  expression do exactly what they do with \<open>None\<close>, so the query string has no
  \<open>filter\<close> parameter.
\<close>

theorem C10_empty_string_as_absent:
  "create_user c email firstName lastName (PStr []) password w =
     create_user c email firstName lastName PNone password w
   \<and> create_user c email firstName lastName externalId (PStr []) w =
     create_user c email firstName lastName externalId PNone w
   \<and> create_group c displayName (PStr []) w = create_group c displayName PNone w
   \<and> get_users c start_index count (PStr []) w = get_users c start_index count PNone w
   \<and> get_groups c start_index count (PStr []) w = get_groups c start_index count PNone w
   \<and> sent (snd (create_user c email firstName lastName (PStr []) (PStr []) w)) =
       sent w @
       [\<lparr> req_method = ''POST'',
           req_url = base_url c @ ''/Users'',
           req_headers = headers c,
           req_json = Some (PDict
             [(''schemas'', PList [PStr ''urn:ietf:params:scim:schemas:core:2.0:User'']),
              (''userName'', email),
              (''externalId'', PStr (fst (generate_external_id w))),
              (''name'', PDict [(''givenName'', firstName), (''familyName'', lastName)]),
              (''emails'', PList [PDict [(''value'', email), (''primary'', PBool True)]]),
              (''password'', PStr (fst (generate_easy_password (snd (generate_external_id w))))),
              (''active'', PBool True)]),
           req_timeout = 30 \<rparr>]
   \<and> sent (snd (create_group c displayName (PStr []) w)) =
       sent w @
       [\<lparr> req_method = ''POST'',
           req_url = base_url c @ ''/Groups'',
           req_headers = headers c,
           req_json = Some (PDict
             [(''schemas'', PList [PStr ''urn:ietf:params:scim:schemas:core:2.0:Group'']),
              (''displayName'', displayName),
              (''externalId'', PStr (str_int (fst (random_randint 10000000 99999999 w))))]),
           req_timeout = 30 \<rparr>]
   \<and> sent (snd (get_users c (PInt i) (PInt n) (PStr []) w)) =
       sent w @ [\<lparr> req_method = ''GET'',
                    req_url = base_url c @ ''/Users?startIndex='' @ str_int i @ ''&count='' @ str_int (min n 100),
                    req_headers = headers c, req_json = None, req_timeout = 30 \<rparr>]
   \<and> sent (snd (get_groups c (PInt i) (PInt n) (PStr []) w)) =
       sent w @ [\<lparr> req_method = ''GET'',
                    req_url = base_url c @ ''/Groups?startIndex='' @ str_int i @ ''&count='' @ str_int (min n 100),
                    req_headers = headers c, req_json = None, req_timeout = 30 \<rparr>]"
proof -
  have 1: "create_user c email firstName lastName (PStr []) password w =
     create_user c email firstName lastName PNone password w"
    by (simp add: create_user_def)
  have 2: "create_user c email firstName lastName externalId (PStr []) w =
     create_user c email firstName lastName externalId PNone w"
    by (simp add: create_user_def)
  have 3: "create_group c displayName (PStr []) w = create_group c displayName PNone w"
    by (simp add: create_group_def)
  have 4: "get_users c start_index count (PStr []) w = get_users c start_index count PNone w"
    by (cases "py_min count 100") (simp_all add: get_users_def)
  have 5: "get_groups c start_index count (PStr []) w = get_groups c start_index count PNone w"
    by (cases "py_min count 100") (simp_all add: get_groups_def)
  have 6: "sent (snd (create_user c email firstName lastName (PStr []) (PStr []) w)) =
       sent w @
       [\<lparr> req_method = ''POST'',
           req_url = base_url c @ ''/Users'',
           req_headers = headers c,
           req_json = Some (PDict
             [(''schemas'', PList [PStr ''urn:ietf:params:scim:schemas:core:2.0:User'']),
              (''userName'', email),
              (''externalId'', PStr (fst (generate_external_id w))),
              (''name'', PDict [(''givenName'', firstName), (''familyName'', lastName)]),
              (''emails'', PList [PDict [(''value'', email), (''primary'', PBool True)]]),
              (''password'', PStr (fst (generate_easy_password (snd (generate_external_id w))))),
              (''active'', PBool True)]),
           req_timeout = 30 \<rparr>]"
    by (simp add: create_user_sent)
  have 7: "sent (snd (create_group c displayName (PStr []) w)) =
       sent w @
       [\<lparr> req_method = ''POST'',
           req_url = base_url c @ ''/Groups'',
           req_headers = headers c,
           req_json = Some (PDict
             [(''schemas'', PList [PStr ''urn:ietf:params:scim:schemas:core:2.0:Group'']),
              (''displayName'', displayName),
              (''externalId'', PStr (str_int (fst (random_randint 10000000 99999999 w))))]),
           req_timeout = 30 \<rparr>]"
    by (simp add: create_group_sent)
  have 8: "sent (snd (get_users c (PInt i) (PInt n) (PStr []) w)) =
       sent w @ [\<lparr> req_method = ''GET'',
                    req_url = base_url c @ ''/Users?startIndex='' @ str_int i @ ''&count='' @ str_int (min n 100),
                    req_headers = headers c, req_json = None, req_timeout = 30 \<rparr>]"
    by (simp add: get_users_def py_min_PInt make_request_sent py_str_PInt lstrip_def)
  have 9: "sent (snd (get_groups c (PInt i) (PInt n) (PStr []) w)) =
       sent w @ [\<lparr> req_method = ''GET'',
                    req_url = base_url c @ ''/Groups?startIndex='' @ str_int i @ ''&count='' @ str_int (min n 100),
                    req_headers = headers c, req_json = None, req_timeout = 30 \<rparr>]"
    by (simp add: get_groups_def py_min_PInt make_request_sent py_str_PInt lstrip_def)
  from 1 2 3 4 5 6 7 8 9 show ?thesis by (intro conjI)
qed


theorem C10_empty_string_as_absent_witness:
  "create_group lab_client (PStr ''Admins'') (PStr []) bare_world =
     create_group lab_client (PStr ''Admins'') PNone bare_world
   \<and> sent (snd (get_users lab_client (PInt 1) (PInt 100) (PStr []) bare_world)) =
       [\<lparr> req_method = ''GET'',
           req_url = ''https://h/v2/Users?startIndex=1&count=100'',
           req_headers = headers lab_client, req_json = None, req_timeout = 30 \<rparr>]"
proof -
  note all = C10_empty_string_as_absent
          [of lab_client "PStr ''a@b.c''" "PStr ''Ann''" "PStr ''Bee''" "PStr ''pw''" bare_world
              "PStr ''x1''" "PStr ''Admins''" "PInt 1" "PInt 100" 1 100]
  note group = all [THEN conjunct2, THEN conjunct2, THEN conjunct1]
  note users = all [THEN conjunct2, THEN conjunct2, THEN conjunct2, THEN conjunct2,
                    THEN conjunct2, THEN conjunct2, THEN conjunct2, THEN conjunct1]
  have "sent bare_world = []" by (simp add: bare_world_def)
  moreover have "base_url lab_client = ''https://h/v2''" by (simp add: lab_client_def)
  ultimately have "sent (snd (get_users lab_client (PInt 1) (PInt 100) (PStr []) bare_world)) =
       [\<lparr> req_method = ''GET'',
           req_url = ''https://h/v2/Users?startIndex=1&count=100'',
           req_headers = headers lab_client, req_json = None, req_timeout = 30 \<rparr>]"
    using users by (simp add: str_int_1 str_int_100)
  with group show ?thesis by (rule conjI)
qed

section \<open>The tool handler\<close>

lemma handle_call_tool_with_client:
  "client_of srv = Some c \<Longrightarrow>
   handle_call_tool srv name arguments w =
     (case execute_tool c name (case arguments of None \<Rightarrow> [] | Some d \<Rightarrow> d) w of
        (Inr result, w2) \<Rightarrow> (Inr result, srv\<lparr>client_of := Some c\<rparr>, w2)
      | (Inl e, w2) \<Rightarrow> (Inr (error_envelope e name arguments), srv\<lparr>client_of := Some c\<rparr>, w2))"
  by (simp add: handle_call_tool_def Let_def)

lemma handle_call_tool_first_use:
  "client_of srv = None \<Longrightarrow> SCIMClient_init None None w = (Inr c, w1) \<Longrightarrow>
   handle_call_tool srv name arguments w =
     (case execute_tool c name (case arguments of None \<Rightarrow> [] | Some d \<Rightarrow> d) w1 of
        (Inr result, w2) \<Rightarrow> (Inr result, srv\<lparr>client_of := Some c\<rparr>, w2)
      | (Inl e, w2) \<Rightarrow> (Inr (error_envelope e name arguments), srv\<lparr>client_of := Some c\<rparr>, w2))"
  by (simp add: handle_call_tool_def Let_def)

lemma handle_call_tool_config_error:
  "client_of srv = None \<Longrightarrow> SCIMClient_init None None w = (Inl e, w1) \<Longrightarrow>
   handle_call_tool srv name arguments w = (Inl e, srv, w1)"
  by (simp add: handle_call_tool_def Let_def)

lemma init_world: "snd (SCIMClient_init b t w) = w"
  by (simp add: init_cases)

lemma execute_tool_unknown:
  "name \<notin> set tool_names \<Longrightarrow>
   execute_tool c name arguments w = (Inl (ValueError (''Unknown tool: '' @ name)), w)"
  by (simp add: execute_tool_def tool_names_def)

lemma execute_tool_create_user_no_email:
  "map_of arguments ''email'' = None \<Longrightarrow>
   execute_tool c ''scim_create_user'' arguments w = (Inl (KeyError ''email''), w)"
  by (simp add: execute_tool_def dict_item_def)


lemma init_missing_env:
  assumes "(environ w ''SCIM_BASE_URL'' = None \<or> environ w ''SCIM_BASE_URL'' = Some [])
           \<or> (environ w ''SCIM_TOKEN'' = None \<or> environ w ''SCIM_TOKEN'' = Some [])"
  shows "\<exists>m. SCIMClient_init None None w = (Inl (ValueError m), w)"
proof -
  let ?A = "or_else None (environ w ''SCIM_BASE_URL'') = None \<or> or_else None (environ w ''SCIM_BASE_URL'') = Some []"
  let ?B = "or_else None (environ w ''SCIM_TOKEN'') = None \<or> or_else None (environ w ''SCIM_TOKEN'') = Some []"
  from assms have ab: "?A \<or> ?B" by (simp add: or_else_def)
  show ?thesis
  proof (cases ?A)
    case True
    then have "SCIMClient_init None None w = (Inl (ValueError base_url_missing), w)"
      by (simp only: init_cases if_True)
    then show ?thesis ..
  next
    case False
    with ab have ?B by blast
    with False have "SCIMClient_init None None w = (Inl (ValueError token_missing), w)"
      by (simp only: init_cases if_True if_False)
    then show ?thesis ..
  qed
qed

lemma handle_call_tool_returns:
  assumes "client_of srv = Some c \<or> (client_of srv = None \<and> SCIMClient_init None None w = (Inr c, w))"
  shows "handle_call_tool srv name arguments w =
     (case execute_tool c name (case arguments of None \<Rightarrow> [] | Some d \<Rightarrow> d) w of
        (Inr result, w2) \<Rightarrow> (Inr result, srv\<lparr>client_of := Some c\<rparr>, w2)
      | (Inl e, w2) \<Rightarrow> (Inr (error_envelope e name arguments), srv\<lparr>client_of := Some c\<rparr>, w2))"
  using assms handle_call_tool_with_client handle_call_tool_first_use by blast

text \<open>
  Claim C9. On a tool invocation for which the server's client has not been constructed
  yet, the client is constructed before the \<open>try\<close>: when the base URL or the token is
  missing from the environment, the \<open>ValueError\<close> of the construction leaves the handler
  as an exception, for every tool name and every arguments, with no envelope and no
  request sent. Once there is a client (already constructed, or constructed now), the
  handler always returns: an exception raised while the tool executes comes back as the
  envelope with \<open>error\<close>, \<open>tool\<close> and \<open>arguments\<close>.
\<close>

theorem C9_config_error_escapes_handler:
  "(client_of srv = None \<and>
      ((environ w ''SCIM_BASE_URL'' = None \<or> environ w ''SCIM_BASE_URL'' = Some [])
       \<or> (environ w ''SCIM_TOKEN'' = None \<or> environ w ''SCIM_TOKEN'' = Some []))
     \<longrightarrow> (\<exists>m. handle_call_tool srv name arguments w = (Inl (ValueError m), srv, w)))
   \<and> ((client_of srv = Some c \<or> (client_of srv = None \<and> SCIMClient_init None None w = (Inr c, w)))
     \<longrightarrow> (\<exists>envelope w2. handle_call_tool srv name arguments w = (Inr envelope, srv\<lparr>client_of := Some c\<rparr>, w2))
       \<and> (\<forall>e w2. execute_tool c name (case arguments of None \<Rightarrow> [] | Some d \<Rightarrow> d) w = (Inl e, w2)
             \<longrightarrow> handle_call_tool srv name arguments w =
                   (Inr (PDict [(''error'', PStr (exn_str e)),
                                (''tool'', PStr name),
                                (''arguments'', (case arguments of None \<Rightarrow> PNone | Some d \<Rightarrow> PDict d))]),
                    srv\<lparr>client_of := Some c\<rparr>, w2)))"
proof (intro conjI impI)
  assume h: "client_of srv = None \<and>
      ((environ w ''SCIM_BASE_URL'' = None \<or> environ w ''SCIM_BASE_URL'' = Some [])
       \<or> (environ w ''SCIM_TOKEN'' = None \<or> environ w ''SCIM_TOKEN'' = Some []))"
  then have "\<exists>m. SCIMClient_init None None w = (Inl (ValueError m), w)"
    using init_missing_env [of w] by blast
  then obtain m where "SCIMClient_init None None w = (Inl (ValueError m), w)" ..
  with h have "handle_call_tool srv name arguments w = (Inl (ValueError m), srv, w)"
    by (simp add: handle_call_tool_config_error)
  then show "\<exists>m. handle_call_tool srv name arguments w = (Inl (ValueError m), srv, w)" ..
next
  assume a: "client_of srv = Some c \<or> (client_of srv = None \<and> SCIMClient_init None None w = (Inr c, w))"
  note eq = handle_call_tool_returns [OF a, of name arguments]
  obtain r w2 where r: "execute_tool c name (case arguments of None \<Rightarrow> [] | Some d \<Rightarrow> d) w = (r, w2)"
    by (cases "execute_tool c name (case arguments of None \<Rightarrow> [] | Some d \<Rightarrow> d) w")
  show "\<exists>envelope w2. handle_call_tool srv name arguments w = (Inr envelope, srv\<lparr>client_of := Some c\<rparr>, w2)"
    unfolding eq r by (cases r) simp_all
next
  assume a: "client_of srv = Some c \<or> (client_of srv = None \<and> SCIMClient_init None None w = (Inr c, w))"
  note eq = handle_call_tool_returns [OF a, of name arguments]
  show "\<forall>e w2. execute_tool c name (case arguments of None \<Rightarrow> [] | Some d \<Rightarrow> d) w = (Inl e, w2)
             \<longrightarrow> handle_call_tool srv name arguments w =
                   (Inr (PDict [(''error'', PStr (exn_str e)),
                                (''tool'', PStr name),
                                (''arguments'', (case arguments of None \<Rightarrow> PNone | Some d \<Rightarrow> PDict d))]),
                    srv\<lparr>client_of := Some c\<rparr>, w2)"
    unfolding eq by (simp add: error_envelope_def)
qed


theorem C9_config_error_escapes_handler_witness:
  "(\<exists>m. handle_call_tool \<lparr>client_of = None\<rparr> ''scim_get_user'' (Some [(''user_id'', PStr ''u1'')]) bare_world
          = (Inl (ValueError m), \<lparr>client_of = None\<rparr>, bare_world))
   \<and> handle_call_tool \<lparr>client_of = Some lab_client\<rparr> ''no_such_tool'' None bare_world =
       (Inr (PDict [(''error'', PStr ''Unknown tool: no_such_tool''),
                    (''tool'', PStr ''no_such_tool''),
                    (''arguments'', PNone)]),
        \<lparr>client_of = Some lab_client\<rparr>, bare_world)"
proof -
  have h1: "client_of \<lparr>client_of = None\<rparr> = None \<and>
      ((environ bare_world ''SCIM_BASE_URL'' = None \<or> environ bare_world ''SCIM_BASE_URL'' = Some [])
       \<or> (environ bare_world ''SCIM_TOKEN'' = None \<or> environ bare_world ''SCIM_TOKEN'' = Some []))"
    by (simp add: bare_world_def)
  note escapes = C9_config_error_escapes_handler
      [where srv = "\<lparr>client_of = None\<rparr>" and w = bare_world and name = "''scim_get_user''"
         and arguments = "Some [(''user_id'', PStr ''u1'')]" and c = lab_client,
       THEN conjunct1, THEN mp, OF h1]
  have h2: "client_of \<lparr>client_of = Some lab_client\<rparr> = Some lab_client
            \<or> (client_of \<lparr>client_of = Some lab_client\<rparr> = None
                \<and> SCIMClient_init None None bare_world = (Inr lab_client, bare_world))"
    by simp
  have "''no_such_tool'' \<notin> set tool_names"
    by (simp add: tool_names_def)
  then have h3: "execute_tool lab_client ''no_such_tool'' (case None of None \<Rightarrow> [] | Some d \<Rightarrow> d) bare_world
                   = (Inl (ValueError (''Unknown tool: '' @ ''no_such_tool'')), bare_world)"
    by (rule execute_tool_unknown)
  note enveloped = C9_config_error_escapes_handler
      [where srv = "\<lparr>client_of = Some lab_client\<rparr>" and w = bare_world and name = "''no_such_tool''"
         and arguments = None and c = lab_client,
       THEN conjunct2, THEN mp, OF h2, THEN conjunct2, THEN spec, THEN spec, THEN mp, OF h3]
  from enveloped have "handle_call_tool \<lparr>client_of = Some lab_client\<rparr> ''no_such_tool'' None bare_world =
       (Inr (PDict [(''error'', PStr ''Unknown tool: no_such_tool''),
                    (''tool'', PStr ''no_such_tool''),
                    (''arguments'', PNone)]),
        \<lparr>client_of = Some lab_client\<rparr>, bare_world)"
    by simp
  with escapes show ?thesis by (rule conjI)
qed


lemma repr_str_email: "repr_str ''email'' = [CHR 0x27] @ ''email'' @ [CHR 0x27]"
  by (simp add: repr_str_def repr_char_def printable_def Let_def)

text \<open>
  Claim C2, as amended. Whenever the server's client is already constructed, or is
  constructed from the environment on this call, dispatching a name that is not in the
  registry returns the envelope with \<open>error\<close> (the text \<open>Unknown tool:\<close> and the
  name), \<open>tool\<close> and \<open>arguments\<close>, and dispatching \<open>scim_create_user\<close> with no
  \<open>email\<close> among the arguments returns the envelope whose \<open>error\<close> is the quoted name
  of the missing field. In both cases the world is unchanged: no request is sent.
\<close>

theorem C2_validation_errors_enveloped:
  "client_of srv = Some c \<or> (client_of srv = None \<and> SCIMClient_init None None w = (Inr c, w)) \<Longrightarrow>
     (name \<notin> set tool_names \<longrightarrow>
        handle_call_tool srv name arguments w =
          (Inr (PDict [(''error'', PStr (''Unknown tool: '' @ name)),
                       (''tool'', PStr name),
                       (''arguments'', (case arguments of None \<Rightarrow> PNone | Some d \<Rightarrow> PDict d))]),
           srv\<lparr>client_of := Some c\<rparr>, w))
   \<and> (map_of (case arguments of None \<Rightarrow> [] | Some d \<Rightarrow> d) ''email'' = None \<longrightarrow>
        handle_call_tool srv ''scim_create_user'' arguments w =
          (Inr (PDict [(''error'', PStr ([CHR 0x27] @ ''email'' @ [CHR 0x27])),
                       (''tool'', PStr ''scim_create_user''),
                       (''arguments'', (case arguments of None \<Rightarrow> PNone | Some d \<Rightarrow> PDict d))]),
           srv\<lparr>client_of := Some c\<rparr>, w))"
proof (intro conjI impI)
  assume a: "client_of srv = Some c \<or> (client_of srv = None \<and> SCIMClient_init None None w = (Inr c, w))"
  assume "name \<notin> set tool_names"
  then have "execute_tool c name (case arguments of None \<Rightarrow> [] | Some d \<Rightarrow> d) w =
               (Inl (ValueError (''Unknown tool: '' @ name)), w)"
    by (rule execute_tool_unknown)
  then show "handle_call_tool srv name arguments w =
          (Inr (PDict [(''error'', PStr (''Unknown tool: '' @ name)),
                       (''tool'', PStr name),
                       (''arguments'', (case arguments of None \<Rightarrow> PNone | Some d \<Rightarrow> PDict d))]),
           srv\<lparr>client_of := Some c\<rparr>, w)"
    unfolding handle_call_tool_returns [OF a, of name arguments]
    by (simp add: error_envelope_def)
next
  assume a: "client_of srv = Some c \<or> (client_of srv = None \<and> SCIMClient_init None None w = (Inr c, w))"
  assume "map_of (case arguments of None \<Rightarrow> [] | Some d \<Rightarrow> d) ''email'' = None"
  then have "execute_tool c ''scim_create_user'' (case arguments of None \<Rightarrow> [] | Some d \<Rightarrow> d) w =
               (Inl (KeyError ''email''), w)"
    by (rule execute_tool_create_user_no_email)
  then show "handle_call_tool srv ''scim_create_user'' arguments w =
          (Inr (PDict [(''error'', PStr ([CHR 0x27] @ ''email'' @ [CHR 0x27])),
                       (''tool'', PStr ''scim_create_user''),
                       (''arguments'', (case arguments of None \<Rightarrow> PNone | Some d \<Rightarrow> PDict d))]),
           srv\<lparr>client_of := Some c\<rparr>, w)"
    unfolding handle_call_tool_returns [OF a, of "''scim_create_user''" arguments]
    by (simp add: error_envelope_def repr_str_email)
qed

lemma init_lab_world: "SCIMClient_init None None lab_world = (Inr lab_client, lab_world)"
  by (simp add: SCIMClient_init_def or_else_def rstrip_def lab_world_def lab_client_def
        lower_def lower_char_def ascii_uppercase_def ascii_lowercase_def)

theorem C2_validation_errors_enveloped_witness:
  "(client_of \<lparr>client_of = None\<rparr> = None
      \<and> SCIMClient_init None None lab_world = (Inr lab_client, lab_world))
   \<and> ''no_such_tool'' \<notin> set tool_names
   \<and> handle_call_tool \<lparr>client_of = None\<rparr> ''no_such_tool'' (Some [(''x'', PInt 1)]) lab_world =
          (Inr (PDict [(''error'', PStr ''Unknown tool: no_such_tool''),
                       (''tool'', PStr ''no_such_tool''),
                       (''arguments'', PDict [(''x'', PInt 1)])]),
           \<lparr>client_of = Some lab_client\<rparr>, lab_world)
   \<and> handle_call_tool \<lparr>client_of = None\<rparr> ''scim_create_user''
          (Some [(''first_name'', PStr ''Ann''), (''last_name'', PStr ''Bee'')]) lab_world =
          (Inr (PDict [(''error'', PStr ([CHR 0x27] @ ''email'' @ [CHR 0x27])),
                       (''tool'', PStr ''scim_create_user''),
                       (''arguments'', PDict [(''first_name'', PStr ''Ann''), (''last_name'', PStr ''Bee'')])]),
           \<lparr>client_of = Some lab_client\<rparr>, lab_world)"
proof -
  have h: "client_of \<lparr>client_of = None\<rparr> = None
      \<and> SCIMClient_init None None lab_world = (Inr lab_client, lab_world)"
    using init_lab_world by simp
  then have a: "client_of \<lparr>client_of = None\<rparr> = Some lab_client
      \<or> (client_of \<lparr>client_of = None\<rparr> = None
          \<and> SCIMClient_init None None lab_world = (Inr lab_client, lab_world))" ..
  have n: "''no_such_tool'' \<notin> set tool_names"
    by (simp add: tool_names_def)
  have m: "map_of (case Some [(''first_name'', PStr ''Ann''), (''last_name'', PStr ''Bee'')] of
                     None \<Rightarrow> [] | Some d \<Rightarrow> d) ''email'' = None"
    by simp
  from C2_validation_errors_enveloped
         [OF a, where name = "''no_such_tool''" and arguments = "Some [(''x'', PInt 1)]",
          THEN conjunct1, THEN mp, OF n]
  have u: "handle_call_tool \<lparr>client_of = None\<rparr> ''no_such_tool'' (Some [(''x'', PInt 1)]) lab_world =
          (Inr (PDict [(''error'', PStr ''Unknown tool: no_such_tool''),
                       (''tool'', PStr ''no_such_tool''),
                       (''arguments'', PDict [(''x'', PInt 1)])]),
           \<lparr>client_of = Some lab_client\<rparr>, lab_world)"
    by simp
  from C2_validation_errors_enveloped
         [OF a, where arguments = "Some [(''first_name'', PStr ''Ann''), (''last_name'', PStr ''Bee'')]",
          THEN conjunct2, THEN mp, OF m]
  have e: "handle_call_tool \<lparr>client_of = None\<rparr> ''scim_create_user''
          (Some [(''first_name'', PStr ''Ann''), (''last_name'', PStr ''Bee'')]) lab_world =
          (Inr (PDict [(''error'', PStr ([CHR 0x27] @ ''email'' @ [CHR 0x27])),
                       (''tool'', PStr ''scim_create_user''),
                       (''arguments'', PDict [(''first_name'', PStr ''Ann''), (''last_name'', PStr ''Bee'')])]),
           \<lparr>client_of = Some lab_client\<rparr>, lab_world)"
    by simp
  show ?thesis by (rule conjI [OF h conjI [OF n conjI [OF u e]]])
qed

text \<open>
  Claim C2 as stated, for every dispatch, fails when the server has no client yet and the
  environment holds no configuration: the handler raises and returns no envelope.
\<close>

theorem C2_unconfigured_dispatch_raises_counterexample:
  "handle_call_tool \<lparr>client_of = None\<rparr> ''no_such_tool'' None bare_world =
     (Inl (ValueError base_url_missing), \<lparr>client_of = None\<rparr>, bare_world)"
  by (simp add: handle_call_tool_def SCIMClient_init_def or_else_def bare_world_def)

end
